theory Spec2Isabelle
  imports Complex_Main "HOL-Library.Word"
begin

unbundle bit_operations_syntax

section \<open>Values and arrays\<close>

text \<open>
  The script \<^verbatim>\<open>full-pipeline-demo-poly-pixels-ml-poly.py\<close> works on numpy arrays.
  A two-dimensional array is a list of rows, a three-dimensional one a list of
  two-dimensional ones. Finite float64 values are the reals they denote; the results of a
  float division, which numpy lets be infinite or not a number instead of raising, are
  values of \<open>fval\<close>. uint8 and uint64 values are words.
\<close>

datatype error =
    FileNotFoundError | ValueError | TypeError | AttributeError | ZeroDivisionError
  | AssertionError | IndexError | WKTReadingError | LibraryError

datatype fval = Fin real | PInf | NInf | NaN

type_synonym u8 = "8 word"
type_synonym u64 = "64 word"

definition shape2 :: "'a list list \<Rightarrow> nat \<Rightarrow> nat \<Rightarrow> bool" where
  "shape2 m h w = (length m = h \<and> list_all (\<lambda>row. length row = w) m)"

definition shape3 :: "'a list list list \<Rightarrow> nat \<Rightarrow> nat \<Rightarrow> nat \<Rightarrow> bool" where
  "shape3 m w h d = (length m = w \<and> list_all (\<lambda>plane. shape2 plane h d) m)"

text \<open>Elementwise operations of two arrays of the same shape.\<close>

definition map2d :: "('a \<Rightarrow> 'b) \<Rightarrow> 'a list list \<Rightarrow> 'b list list" where
  "map2d f m = map (map f) m"

definition zip2d :: "('a \<Rightarrow> 'b \<Rightarrow> 'c) \<Rightarrow> 'a list list \<Rightarrow> 'b list list \<Rightarrow> 'c list list" where
  "zip2d f a b = map2 (map2 f) a b"

section \<open>Thresholding (lines 120-123)\<close>

text \<open>
  \<^verbatim>\<open>threshold = 0.3\<close>: the Python literal is the float64 nearest to three tenths,
  \<open>5404319552844595 / 2^54\<close>. \<^verbatim>\<open>pred_mask >= threshold\<close> compares every entry of
  the float64 array with it.
\<close>

definition threshold :: real where
  "threshold = 5404319552844595 / 18014398509481984"

definition pred_binary_mask_of :: "real list list \<Rightarrow> bool list list" where
  "pred_binary_mask_of pred_mask = map2d (\<lambda>p. p \<ge> threshold) pred_mask"

section \<open>Pixel-level Jaccard (lines 125-130)\<close>

text \<open>
  \<^verbatim>\<open>pred_binary_mask & train_mask\<close>: a bool array and a uint8 array; numpy casts the
  bool to uint8 and takes the bitwise and. \<^verbatim>\<open>~train_mask\<close> is the bitwise complement
  of a uint8 (255 for 0, 254 for 1), \<^verbatim>\<open>~pred_binary_mask\<close> the logical negation of
  a bool. \<^verbatim>\<open>.sum()\<close> of a uint8 array accumulates in uint64.
\<close>

definition and_bool_u8 :: "bool \<Rightarrow> u8 \<Rightarrow> u8" where
  "and_bool_u8 p t = of_bool p AND t"

definition np_sum :: "u8 list list \<Rightarrow> u64" where
  "np_sum m = word_of_nat (sum_list (map unat (concat m)))"

definition tp_of :: "bool list list \<Rightarrow> u8 list list \<Rightarrow> u64" where
  "tp_of pred_binary_mask train_mask = np_sum (zip2d and_bool_u8 pred_binary_mask train_mask)"

definition fp_of :: "bool list list \<Rightarrow> u8 list list \<Rightarrow> u64" where
  "fp_of pred_binary_mask train_mask =
     np_sum (zip2d and_bool_u8 pred_binary_mask (map2d (\<lambda>t. NOT t) train_mask))"

definition fn_of :: "bool list list \<Rightarrow> u8 list list \<Rightarrow> u64" where
  "fn_of pred_binary_mask train_mask =
     np_sum (zip2d and_bool_u8 (map2d (\<lambda>p. \<not> p) pred_binary_mask) train_mask)"

text \<open>
  \<^verbatim>\<open>tp / (tp + fp + fn)\<close> on numpy uint64 scalars: the sum wraps at \<open>2^64\<close>, the
  division is a float division, which gives nan for 0/0 and does not raise.
\<close>

definition np_true_divide :: "real \<Rightarrow> real \<Rightarrow> fval" where
  "np_true_divide a b =
     (if b \<noteq> 0 then Fin (a / b)
      else if a > 0 then PInf else if a < 0 then NInf else NaN)"

definition pixel_jaccard :: "bool list list \<Rightarrow> u8 list list \<Rightarrow> fval" where
  "pixel_jaccard pred_binary_mask train_mask =
     (let tp = tp_of pred_binary_mask train_mask;
          fp = fp_of pred_binary_mask train_mask;
          fn = fn_of pred_binary_mask train_mask
      in np_true_divide (real (unat tp)) (real (unat (tp + fp + fn))))"

text \<open>
  The glossary's intersection over union, on the sets of pixel positions that each mask
  marks: a prediction pixel is marked when it is True, a truth pixel when it is 1.
\<close>

definition marked_pairs :: "bool list list \<Rightarrow> u8 list list \<Rightarrow> (bool \<times> bool) list" where
  "marked_pairs prediction truth = zip (concat prediction) (map (\<lambda>t. t = 1) (concat truth))"

definition iou_intersection :: "bool list list \<Rightarrow> u8 list list \<Rightarrow> nat" where
  "iou_intersection prediction truth =
     length (filter (\<lambda>(p, t). p \<and> t) (marked_pairs prediction truth))"

definition iou_union :: "bool list list \<Rightarrow> u8 list list \<Rightarrow> nat" where
  "iou_union prediction truth =
     length (filter (\<lambda>(p, t). p \<or> t) (marked_pairs prediction truth))"

definition binary_mask :: "u8 list list \<Rightarrow> bool" where
  "binary_mask m = list_all (list_all (\<lambda>v. v = 0 \<or> v = 1)) m"

section \<open>Geometry and the libraries the script calls\<close>

text \<open>
  A shapely polygon is a shell with holes. A geometry is a polygon, a multipolygon, a
  collection of geometries, or one of the kinds that \<^verbatim>\<open>wkt.loads\<close> or
  \<^verbatim>\<open>buffer\<close> may give besides: a point, a line string or a ring (\<open>SinglePart\<close>),
  a multipoint or a multilinestring (\<open>MultiPart\<close>); of these only whether they are
  empty is kept.
\<close>

type_synonym point = "real \<times> real"

datatype polygon = Poly (exterior: "point list") (interiors: "point list list")

datatype geometry =
    Polygon polygon
  | MultiPolygon "polygon list"
  | GeometryCollection "geometry list"
  | SinglePart bool
  | MultiPart bool

text \<open>An OpenCV contour is an array of shape (n, 1, 2) of int32 points; a row of the
  hierarchy is (next, previous, first child, parent).\<close>

type_synonym contour = "(int \<times> int) list"
type_synonym hrow = "int \<times> int \<times> int \<times> int"

datatype pyval = Str string | Float fval | Formatted string int

datatype event = Opened string | Printed "pyval list" | Shown "fval list list list"

text \<open>
  The functions of csv, shapely, tifffile, numpy, OpenCV and scikit-learn that the script
  calls are parameters, collected in one record. \<open>'f\<close> is the content of a file and
  \<open>'clf\<close> a fitted classifier. A call that can raise on the values the script may
  pass returns an error or a result.
\<close>

record ('f, 'clf) lib =
  csv_reader :: "'f \<Rightarrow> string list list"
  py_float :: "string \<Rightarrow> real option"
  wkt_loads :: "string \<Rightarrow> geometry option"
  wkt_dumps :: "geometry \<Rightarrow> string"
  imread :: "'f \<Rightarrow> error + real list list list"
  imshow :: "fval list list list \<Rightarrow> error option"
  affinity_scale :: "geometry \<Rightarrow> real \<Rightarrow> real \<Rightarrow> geometry"
  fillPoly_covers :: "(32 word \<times> 32 word) list list \<Rightarrow> nat \<Rightarrow> nat \<Rightarrow> bool"
  percentile :: "real list \<Rightarrow> real \<Rightarrow> real"
  fit :: "real list list \<Rightarrow> u8 list \<Rightarrow> error + 'clf"
  predict_proba :: "'clf \<Rightarrow> real list list \<Rightarrow> (real \<times> real) list"
  average_precision_score :: "u8 list \<Rightarrow> real list \<Rightarrow> real"
  findContours :: "u8 list list \<Rightarrow> contour list \<times> hrow list list"
  approxPolyDP :: "contour \<Rightarrow> real \<Rightarrow> bool \<Rightarrow> contour"
  contourArea :: "contour \<Rightarrow> real"
  is_valid :: "geometry \<Rightarrow> bool"
  buffer :: "geometry \<Rightarrow> real \<Rightarrow> geometry"
  intersection :: "geometry \<Rightarrow> geometry \<Rightarrow> geometry"
  union :: "geometry \<Rightarrow> geometry \<Rightarrow> geometry"
  area :: "geometry \<Rightarrow> real"

section \<open>mask_for_polygons (lines 56-66)\<close>

text \<open>
  \<^verbatim>\<open>np.array(x).round().astype(np.int32)\<close>: numpy rounds halves to the even
  neighbour; the cast of a value outside the range of int32 gives -2147483648.
\<close>

definition np_round :: "real \<Rightarrow> int" where
  "np_round x =
     (let f = \<lfloor>x\<rfloor>; d = x - of_int f
      in if d < 1 / 2 then f else if d > 1 / 2 then f + 1
         else if even f then f else f + 1)"

definition astype_int32 :: "int \<Rightarrow> 32 word" where
  "astype_int32 n =
     (if - (2 ^ 31) \<le> n \<and> n < 2 ^ 31 then word_of_int n else word_of_int (- (2 ^ 31)))"

definition int_coords :: "point list \<Rightarrow> (32 word \<times> 32 word) list" where
  "int_coords x = map (\<lambda>(a, b). (astype_int32 (np_round a), astype_int32 (np_round b))) x"

text \<open>
  \<^verbatim>\<open>if not polygons\<close>: a shapely geometry is false when it is empty. A polygon is
  empty when its shell has no point, a multipolygon or a collection when all its parts are.
\<close>

definition polygon_empty :: "polygon \<Rightarrow> bool" where
  "polygon_empty p = (exterior p = [])"

fun is_empty :: "geometry \<Rightarrow> bool" where
  "is_empty (Polygon p) = polygon_empty p"
| "is_empty (MultiPolygon ps) = list_all polygon_empty ps"
| "is_empty (GeometryCollection gs) = list_all is_empty gs"
| "is_empty (SinglePart e) = e"
| "is_empty (MultiPart e) = e"

text \<open>
  \<^verbatim>\<open>cv2.fillPoly(img, pts, color)\<close> writes \<open>color\<close> into the pixels that the
  polygons cover and leaves the others; which pixels they cover is the library's.
\<close>

definition fillPoly ::
  "('f, 'clf) lib \<Rightarrow> u8 list list \<Rightarrow> (32 word \<times> 32 word) list list \<Rightarrow> u8 \<Rightarrow> u8 list list" where
  "fillPoly L img pts color =
     map (\<lambda>(i, row). map (\<lambda>(j, v). if fillPoly_covers L pts i j then color else v)
                         (enumerate 0 row))
         (enumerate 0 img)"

definition np_zeros :: "nat \<times> nat \<Rightarrow> u8 list list" where
  "np_zeros im_size = replicate (fst im_size) (replicate (snd im_size) 0)"

text \<open>
  \<^verbatim>\<open>for poly in polygons\<close> with \<^verbatim>\<open>poly.exterior\<close>: a polygon, a point and a
  line are not iterable (TypeError); a multipolygon gives its polygons; a collection gives
  its members, and a member that is not a polygon has no exterior (AttributeError), as the
  members of a multipoint or a multilinestring.
\<close>

fun member_polygons :: "geometry list \<Rightarrow> error + polygon list" where
  "member_polygons [] = Inr []"
| "member_polygons (Polygon p # gs) =
     (case member_polygons gs of Inl e \<Rightarrow> Inl e | Inr ps \<Rightarrow> Inr (p # ps))"
| "member_polygons (g # gs) = Inl AttributeError"

fun iterate_polygons :: "geometry \<Rightarrow> error + polygon list" where
  "iterate_polygons (Polygon p) = Inl TypeError"
| "iterate_polygons (MultiPolygon ps) = Inr ps"
| "iterate_polygons (GeometryCollection gs) = member_polygons gs"
| "iterate_polygons (SinglePart e) = Inl TypeError"
| "iterate_polygons (MultiPart e) = Inl AttributeError"

text \<open>\<open>im_size\<close> is the script's global.\<close>

definition mask_for_polygons ::
  "('f, 'clf) lib \<Rightarrow> nat \<times> nat \<Rightarrow> geometry \<Rightarrow> error + u8 list list" where
  "mask_for_polygons L im_size polygons =
     (let img_mask = np_zeros im_size in
      if is_empty polygons then Inr img_mask
      else case iterate_polygons polygons of
        Inl e \<Rightarrow> Inl e
      | Inr ps \<Rightarrow>
          (let exteriors = map (\<lambda>poly. int_coords (exterior poly)) ps;
               interiors = concat (map (\<lambda>poly. map int_coords (interiors poly)) ps);
               img_mask = fillPoly L img_mask exteriors 1;
               img_mask = fillPoly L img_mask interiors 0
           in Inr img_mask))"

section \<open>scale_percentile (lines 73-82)\<close>

text \<open>
  The matrix has shape (w, h, d). Reshaped to (w * h, d) it is the list of its pixels;
  the percentiles along axis 0 are taken per channel. \<^verbatim>\<open>np.percentile\<close> raises
  IndexError on an array without a pixel.
\<close>

definition channel :: "real list list \<Rightarrow> nat \<Rightarrow> real list" where
  "channel pixels k = map (\<lambda>px. px ! k) pixels"

definition depth :: "real list list list \<Rightarrow> nat" where
  "depth matrix = (case concat matrix of [] \<Rightarrow> 0 | px # _ \<Rightarrow> length px)"

definition np_clip01 :: "fval \<Rightarrow> fval" where
  "np_clip01 v = (case v of Fin x \<Rightarrow> Fin (min (max x 0) 1) | PInf \<Rightarrow> Fin 1
                  | NInf \<Rightarrow> Fin 0 | NaN \<Rightarrow> NaN)"

definition scale_percentile ::
  "('f, 'clf) lib \<Rightarrow> real list list list \<Rightarrow> error + fval list list list" where
  "scale_percentile L matrix =
     (let d = depth matrix;
          pixels = concat matrix
      in if pixels = [] then Inl IndexError
         else
           (let mins = map (\<lambda>k. percentile L (channel pixels k) 1) [0..<d];
                maxs = map (\<lambda>k. percentile L (channel pixels k) 99 - mins ! k) [0..<d]
            in Inr (map (map (\<lambda>px. map (\<lambda>(k, x). np_clip01
                                               (np_true_divide (x - mins ! k) (maxs ! k)))
                                        (enumerate 0 px)))
                        matrix)))"

section \<open>mask_to_polygons (lines 134-171)\<close>


definition children_of :: "(int \<rightharpoonup> contour list) \<Rightarrow> int \<Rightarrow> contour list" where
  "children_of cnt_children k = (case cnt_children k of None \<Rightarrow> [] | Some cs \<Rightarrow> cs)"

fun associate ::
  "contour list \<Rightarrow> (nat \<times> hrow) list \<Rightarrow> nat set \<times> (int \<rightharpoonup> contour list) \<Rightarrow>
   error + nat set \<times> (int \<rightharpoonup> contour list)" where
  "associate approx_contours [] st = Inr st"
| "associate approx_contours ((idx, (nxt, prv, child, parent_idx)) # rest)
     (child_contours, cnt_children) =
     (if parent_idx \<noteq> - 1 then
        if idx < length approx_contours then
          associate approx_contours rest
            (insert idx child_contours,
             cnt_children(parent_idx \<mapsto>
               children_of cnt_children parent_idx @ [approx_contours ! idx]))
        else Inl IndexError
      else associate approx_contours rest (child_contours, cnt_children))"

text \<open>The second loop (lines 154-162). \<^verbatim>\<open>cnt[:, 0, :]\<close> is the contour's list
  of points, which shapely stores as floats. \<^verbatim>\<open>Polygon(shell, holes)\<close> raises
  ValueError when the shell or a hole has fewer than three points.\<close>

definition coords_of :: "contour \<Rightarrow> point list" where
  "coords_of cnt = map (\<lambda>(x, y). (real_of_int x, real_of_int y)) cnt"

definition shapely_Polygon :: "contour \<Rightarrow> contour list \<Rightarrow> error + polygon" where
  "shapely_Polygon shell holes =
     (if length shell < 3 \<or> list_ex (\<lambda>c. length c < 3) holes then Inl ValueError
      else Inr (Poly (coords_of shell) (map coords_of holes)))"

definition make_polygon ::
  "('f, 'clf) lib \<Rightarrow> real \<Rightarrow> (int \<rightharpoonup> contour list) \<Rightarrow> nat \<Rightarrow> contour \<Rightarrow> error + polygon" where
  "make_polygon L min_area cnt_children idx cnt =
     shapely_Polygon cnt
       (filter (\<lambda>c. contourArea L c \<ge> min_area) (children_of cnt_children (int idx)))"

fun collect_polygons ::
  "('f, 'clf) lib \<Rightarrow> real \<Rightarrow> nat set \<Rightarrow> (int \<rightharpoonup> contour list) \<Rightarrow>
   (nat \<times> contour) list \<Rightarrow> error + polygon list" where
  "collect_polygons L min_area child_contours cnt_children [] = Inr []"
| "collect_polygons L min_area child_contours cnt_children ((idx, cnt) # rest) =
     (if idx \<notin> child_contours \<and> contourArea L cnt \<ge> min_area
      then (case make_polygon L min_area cnt_children idx cnt of
              Inl e \<Rightarrow> Inl e
            | Inr poly \<Rightarrow>
                (case collect_polygons L min_area child_contours cnt_children rest of
                   Inl e \<Rightarrow> Inl e
                 | Inr all_polygons \<Rightarrow> Inr (poly # all_polygons)))
      else collect_polygons L min_area child_contours cnt_children rest)"

text \<open>Lines 145-162: from the approximate contours and the hierarchy to the list
  \<open>all_polygons\<close>. \<^verbatim>\<open>assert hierarchy.shape[0] == 1\<close> is the first check.\<close>

definition build_polygons ::
  "('f, 'clf) lib \<Rightarrow> real \<Rightarrow> hrow list list \<Rightarrow> contour list \<Rightarrow> error + polygon list" where
  "build_polygons L min_area hierarchy approx_contours =
     (case hierarchy of
        [rows] \<Rightarrow>
          (case associate approx_contours (enumerate 0 rows) ({}, Map.empty) of
             Inl e \<Rightarrow> Inl e
           | Inr (child_contours, cnt_children) \<Rightarrow>
               collect_polygons L min_area child_contours cnt_children
                 (enumerate 0 approx_contours))
      | _ \<Rightarrow> Inl AssertionError)"





text \<open>Lines 163-171: the validity fix.\<close>

definition fix_validity :: "('f, 'clf) lib \<Rightarrow> polygon list \<Rightarrow> geometry" where
  "fix_validity L polys =
     (let all_polygons = MultiPolygon polys in
      if \<not> is_valid L all_polygons then
        (let all_polygons = buffer L all_polygons 0 in
         case all_polygons of Polygon p \<Rightarrow> MultiPolygon [p] | _ \<Rightarrow> all_polygons)
      else all_polygons)"

text \<open>The whole function. \<^verbatim>\<open>((mask == 1) * 255).astype(np.uint8)\<close> on a bool
  mask is 255 where it is True.\<close>

definition mask_to_polygons ::
  "('f, 'clf) lib \<Rightarrow> bool list list \<Rightarrow> real \<Rightarrow> real \<Rightarrow> error + geometry" where
  "mask_to_polygons L mask' epsilon min_area =
     (let (contours, hierarchy) = findContours L (map2d (\<lambda>b. if b then 255 else 0) mask');
          approx_contours = map (\<lambda>cnt. approxPolyDP L cnt epsilon True) contours
      in if contours = [] then Inr (MultiPolygon [])
         else case build_polygons L min_area hierarchy approx_contours of
                Inl e \<Rightarrow> Inl e
              | Inr all_polygons \<Rightarrow> Inr (fix_validity L all_polygons))"

section \<open>The script\<close>

text \<open>
  The script runs top to bottom in a world: the files it can open, the command line and
  the environment it was started with, and what it has opened, printed and shown so far.
  A statement either raises, which ends the run there, or gives a value.
\<close>

record 'f world =
  fs :: "string \<rightharpoonup> 'f"
  argv :: "string list"
  environ :: "string \<rightharpoonup> string"
  log :: "event list"

type_synonym ('f, 'a) io = "'f world \<Rightarrow> (error + 'a) \<times> 'f world"

definition io_return :: "'a \<Rightarrow> ('f, 'a) io" where
  "io_return x w = (Inr x, w)"

definition io_raise :: "error \<Rightarrow> ('f, 'a) io" where
  "io_raise e w = (Inl e, w)"

definition io_bind :: "('f, 'a) io \<Rightarrow> ('a \<Rightarrow> ('f, 'b) io) \<Rightarrow> ('f, 'b) io" where
  "io_bind m f w = (case m w of (Inl e, w') \<Rightarrow> (Inl e, w') | (Inr x, w') \<Rightarrow> f x w')"

definition lift :: "error + 'a \<Rightarrow> ('f, 'a) io" where
  "lift r = (case r of Inl e \<Rightarrow> io_raise e | Inr x \<Rightarrow> io_return x)"

definition emit :: "event \<Rightarrow> ('f, unit) io" where
  "emit ev w = (Inr (), w\<lparr>log := log w @ [ev]\<rparr>)"

text \<open>\<^verbatim>\<open>open(path)\<close>: mode 'r'; FileNotFoundError when there is no such file.\<close>

definition open_file :: "string \<Rightarrow> ('f, 'f) io" where
  "open_file path w =
     (case fs w path of
        None \<Rightarrow> (Inl FileNotFoundError, w)
      | Some content \<Rightarrow> (Inr content, w\<lparr>log := log w @ [Opened path]\<rparr>))"

definition print :: "pyval list \<Rightarrow> ('f, unit) io" where
  "print vs = emit (Printed vs)"

text \<open>\<^verbatim>\<open>tiff.imshow(data); plt.show()\<close>\<close>

definition show_image :: "('f, 'clf) lib \<Rightarrow> fval list list list \<Rightarrow> ('f, unit) io" where
  "show_image L img = (case imshow L img of Some e \<Rightarrow> io_raise e | None \<Rightarrow> emit (Shown img))"

definition IM_ID :: string where
  "IM_ID = ''6120_2_2''"

definition POLY_TYPE :: string where
  "POLY_TYPE = ''1''"

definition grid_sizes_path :: string where
  "grid_sizes_path = ''../data/grid_sizes.csv''"

definition train_wkt_path :: string where
  "train_wkt_path = ''../data/train_wkt_v4.csv''"

definition image_path :: string where
  "image_path = ''../data/three_band/'' @ IM_ID @ ''.tif''"

text \<open>
  Lines 23-27. Unpacking a row that has not three fields raises ValueError, and so does
  \<^verbatim>\<open>float\<close> on a field that is not a number; the loop stops at the first row of the
  image. \<open>x_max\<close> and \<open>y_min\<close> stay None together.
\<close>

fun load_grid_size :: "('f, 'clf) lib \<Rightarrow> string list list \<Rightarrow> error + (real \<times> real) option" where
  "load_grid_size L [] = Inr None"
| "load_grid_size L (row # rows) =
     (case row of
        [im_id, x, y] \<Rightarrow>
          if im_id = IM_ID then
            (case py_float L x of
               None \<Rightarrow> Inl ValueError
             | Some x_max \<Rightarrow>
                 (case py_float L y of
                    None \<Rightarrow> Inl ValueError
                  | Some y_min \<Rightarrow> Inr (Some (x_max, y_min))))
          else load_grid_size L rows
      | _ \<Rightarrow> Inl ValueError)"

text \<open>Lines 30-34. \<^verbatim>\<open>wkt.loads\<close> raises on text that is not WKT.\<close>

fun load_train_polygons :: "('f, 'clf) lib \<Rightarrow> string list list \<Rightarrow> error + geometry option" where
  "load_train_polygons L [] = Inr None"
| "load_train_polygons L (row # rows) =
     (case row of
        [im_id, poly_type, poly] \<Rightarrow>
          if im_id = IM_ID \<and> poly_type = POLY_TYPE then
            (case wkt_loads L poly of
               None \<Rightarrow> Inl WKTReadingError
             | Some g \<Rightarrow> Inr (Some g))
          else load_train_polygons L rows
      | _ \<Rightarrow> Inl ValueError)"

text \<open>Line 37-38: \<^verbatim>\<open>.transpose([1, 2, 0])\<close> of an array of shape (c, h, w), and
  the first two dimensions of an array.\<close>

definition transpose_120 :: "'a list list list \<Rightarrow> 'a list list list" where
  "transpose_120 a =
     (let c = length a;
          h = (case a of [] \<Rightarrow> 0 | plane # _ \<Rightarrow> length plane);
          w = (case concat a of [] \<Rightarrow> 0 | row # _ \<Rightarrow> length row)
      in map (\<lambda>i. map (\<lambda>j. map (\<lambda>k. a ! k ! i ! j) [0..<c]) [0..<w]) [0..<h])"

definition shape_of :: "'a list list \<Rightarrow> nat \<times> nat" where
  "shape_of m = (length m, (case m of [] \<Rightarrow> 0 | row # _ \<Rightarrow> length row))"

text \<open>Lines 42-46. Dividing a float by None raises TypeError, by 0.0 ZeroDivisionError.\<close>

definition py_div :: "real \<Rightarrow> real \<Rightarrow> error + real" where
  "py_div a b = (if b = 0 then Inl ZeroDivisionError else Inr (a / b))"

definition get_scalers :: "nat \<times> nat \<Rightarrow> (real \<times> real) option \<Rightarrow> error + real \<times> real" where
  "get_scalers im_size grid =
     (let (h, w) = im_size;
          w' = real w * (real w / (real w + 1));
          h' = real h * (real h / (real h + 1))
      in case grid of
           None \<Rightarrow> Inl TypeError
         | Some (x_max, y_min) \<Rightarrow>
             (case py_div w' x_max of
                Inl e \<Rightarrow> Inl e
              | Inr x_scaler \<Rightarrow>
                  (case py_div h' y_min of
                     Inl e \<Rightarrow> Inl e
                   | Inr y_scaler \<Rightarrow> Inr (x_scaler, y_scaler))))"

text \<open>Lines 51-52. \<^verbatim>\<open>shapely.affinity.scale\<close> reads attributes of the geometry:
  on None it raises AttributeError.\<close>

definition scale_polygons ::
  "('f, 'clf) lib \<Rightarrow> geometry option \<Rightarrow> real \<Rightarrow> real \<Rightarrow> error + geometry" where
  "scale_polygons L train_polygons xfact yfact =
     (case train_polygons of
        None \<Rightarrow> Inl AttributeError
      | Some g \<Rightarrow> Inr (affinity_scale L g xfact yfact))"

text \<open>The window \<^verbatim>\<open>[2900:3200, 2000:2300]\<close>; a slice past the end is shorter or
  empty.\<close>

definition window :: "'a list list \<Rightarrow> 'a list list" where
  "window m = map (\<lambda>row. take (2300 - 2000) (drop 2000 row)) (take (3200 - 2900) (drop 2900 m))"

definition times255 :: "fval \<Rightarrow> fval" where
  "times255 v = (case v of Fin x \<Rightarrow> Fin (255 * x) | other \<Rightarrow> other)"

text \<open>Lines 91-94: \<^verbatim>\<open>255 * np.stack([m, m, m])\<close>. What 255 times an entry is depends
  on the array's type: uint8 wraps, a bool counts as 0 or 1.\<close>

definition mask_picture :: "('a \<Rightarrow> fval) \<Rightarrow> 'a list list \<Rightarrow> fval list list list" where
  "mask_picture mul255 m = map (map2d mul255) [m, m, m]"

definition show_mask :: "('f, 'clf) lib \<Rightarrow> ('a \<Rightarrow> fval) \<Rightarrow> 'a list list \<Rightarrow> ('f, unit) io" where
  "show_mask L mul255 m = show_image L (mask_picture mul255 m)"

definition mul255_u8 :: "u8 \<Rightarrow> fval" where
  "mul255_u8 v = Fin (real (unat (255 * v)))"

definition mul255_float :: "real \<Rightarrow> fval" where
  "mul255_float p = Fin (255 * p)"

definition mul255_bool :: "bool \<Rightarrow> fval" where
  "mul255_bool b = Fin (if b then 255 else 0)"

text \<open>Lines 106-107 and 115: \<^verbatim>\<open>reshape(-1, 3)\<close> and \<^verbatim>\<open>reshape(shape)\<close> raise
  ValueError when the size does not fit.\<close>

fun chunks3 :: "'a list \<Rightarrow> 'a list list" where
  "chunks3 (a # b # c # rest) = [a, b, c] # chunks3 rest"
| "chunks3 rest = []"

definition reshape_rows3 :: "'a list list list \<Rightarrow> error + 'a list list" where
  "reshape_rows3 a =
     (let flat = concat (concat a)
      in if length flat mod 3 = 0 then Inr (chunks3 flat) else Inl ValueError)"

definition reshape2 :: "'a list \<Rightarrow> nat \<times> nat \<Rightarrow> error + 'a list list" where
  "reshape2 flat shp =
     (let (h, w) = shp
      in if length flat = h * w then Inr (map (\<lambda>i. take w (drop (i * w) flat)) [0..<h])
         else Inl ValueError)"

text \<open>Lines 180-191, after the polygons are predicted: scale back, dump, reload and
  score. \<^verbatim>\<open>1 / x_scaler\<close> and the last division raise ZeroDivisionError on 0.0;
  \<^verbatim>\<open>intersection\<close> reads attributes of its argument, as the scaling does.\<close>

definition score ::
  "('f, 'clf) lib \<Rightarrow> geometry \<Rightarrow> geometry option \<Rightarrow> real \<Rightarrow> real \<Rightarrow> ('f, unit) io" where
  "score L pred_polygons train_polygons x_scaler y_scaler =
     io_bind (lift (py_div 1 x_scaler)) (\<lambda>xfact.
     io_bind (lift (py_div 1 y_scaler)) (\<lambda>yfact.
     let scaled_pred_polygons = affinity_scale L pred_polygons xfact yfact;
         dumped_prediction = wkt_dumps L scaled_pred_polygons
     in
     io_bind (print [Formatted ''Prediction size: {:,} bytes''
                       (int (length dumped_prediction))]) (\<lambda>u.
     io_bind (lift (case wkt_loads L dumped_prediction of
                      None \<Rightarrow> Inl WKTReadingError | Some g \<Rightarrow> Inr g)) (\<lambda>final_polygons.
     io_bind (lift (case train_polygons of
                      None \<Rightarrow> Inl AttributeError | Some g \<Rightarrow> Inr g)) (\<lambda>truth.
     io_bind (lift (py_div (area L (intersection L final_polygons truth))
                           (area L (union L final_polygons truth)))) (\<lambda>jaccard.
     print [Str ''Final jaccard'', Float (Fin jaccard)]))))))"

text \<open>The statements of the script in their order, lines 22-191. Line 16 only raises
  the csv module's field size limit and the imports bind names: they have no counterpart
  here.\<close>

definition script :: "('f, 'clf) lib \<Rightarrow> ('f, unit) io" where
  "script L =
     io_bind (open_file grid_sizes_path) (\<lambda>grid_file.
     io_bind (lift (load_grid_size L (csv_reader L grid_file))) (\<lambda>grid.
     io_bind (open_file train_wkt_path) (\<lambda>train_file.
     io_bind (lift (load_train_polygons L (csv_reader L train_file))) (\<lambda>train_polygons.
     io_bind (open_file image_path) (\<lambda>image_file.
     io_bind (lift (imread L image_file)) (\<lambda>raw.
     let im_rgb = transpose_120 raw;
         im_size = shape_of im_rgb
     in
     io_bind (lift (get_scalers im_size grid)) (\<lambda>(x_scaler, y_scaler).
     io_bind (lift (scale_polygons L train_polygons x_scaler y_scaler)) (\<lambda>train_polygons_scaled.
     io_bind (lift (mask_for_polygons L im_size train_polygons_scaled)) (\<lambda>train_mask.
     io_bind (lift (scale_percentile L (window im_rgb))) (\<lambda>scaled.
     io_bind (show_image L (map2d (map times255) scaled)) (\<lambda>u.
     io_bind (show_mask L mul255_u8 (window train_mask)) (\<lambda>u.
     io_bind (lift (reshape_rows3 im_rgb)) (\<lambda>xs.
     let ys = concat train_mask in
     io_bind (print [Str ''training...'']) (\<lambda>u.
     io_bind (lift (fit L xs ys)) (\<lambda>pipeline.
     let pred_ys = map snd (predict_proba L pipeline xs) in
     io_bind (print [Str ''average precision'',
                     Float (Fin (average_precision_score L ys pred_ys))]) (\<lambda>u.
     io_bind (lift (reshape2 pred_ys (shape_of train_mask))) (\<lambda>pred_mask.
     io_bind (show_mask L mul255_float (window pred_mask)) (\<lambda>u.
     let pred_binary_mask = pred_binary_mask_of pred_mask in
     io_bind (show_mask L mul255_bool (window pred_binary_mask)) (\<lambda>u.
     io_bind (print [Str ''Pixel jaccard'',
                     Float (pixel_jaccard pred_binary_mask train_mask)]) (\<lambda>u.
     io_bind (lift (mask_to_polygons L pred_binary_mask 10 10)) (\<lambda>pred_polygons.
     io_bind (lift (mask_for_polygons L im_size pred_polygons)) (\<lambda>pred_poly_mask.
     io_bind (show_mask L mul255_u8 (window pred_poly_mask)) (\<lambda>u.
     score L pred_polygons train_polygons x_scaler y_scaler)))))))))))))))))))))))"

text \<open>The paths a run has opened, in their order.\<close>

fun opened :: "event list \<Rightarrow> string list" where
  "opened [] = []"
| "opened (Opened path # es) = path # opened es"
| "opened (ev # es) = opened es"

section \<open>A small instance, for the examples\<close>

text \<open>
  An instance of the library record on which the definitions can be run: a file is the
  rows of a CSV file or the samples of an image, the area of a contour is the shoelace
  formula, scaling multiplies the coordinates, a percentile below the median is the
  least value and one above it the greatest, the classifier gives a pixel the
  probability 0.9 when its first sample is below 2 and 0.1 otherwise, and
  \<open>fillPoly\<close> paints the pixel at the first point of each polygon.
\<close>

type_synonym demo_file = "string list list + real list list list"

fun shoelace :: "contour \<Rightarrow> int" where
  "shoelace ((x1, y1) # (x2, y2) # rest) = x1 * y2 - x2 * y1 + shoelace ((x2, y2) # rest)"
| "shoelace rest = 0"

definition demo_area :: "contour \<Rightarrow> real" where
  "demo_area c = (case c of [] \<Rightarrow> 0 | p # rest \<Rightarrow> \<bar>real_of_int (shoelace (c @ [p]))\<bar> / 2)"

definition scale_points :: "real \<Rightarrow> real \<Rightarrow> point list \<Rightarrow> point list" where
  "scale_points xfact yfact ps = map (\<lambda>(x, y). (xfact * x, yfact * y)) ps"

definition scale_polygon :: "real \<Rightarrow> real \<Rightarrow> polygon \<Rightarrow> polygon" where
  "scale_polygon xfact yfact p =
     Poly (scale_points xfact yfact (exterior p)) (map (scale_points xfact yfact) (interiors p))"

fun demo_scale :: "geometry \<Rightarrow> real \<Rightarrow> real \<Rightarrow> geometry" where
  "demo_scale (Polygon p) xfact yfact = Polygon (scale_polygon xfact yfact p)"
| "demo_scale (MultiPolygon ps) xfact yfact = MultiPolygon (map (scale_polygon xfact yfact) ps)"
| "demo_scale (GeometryCollection gs) xfact yfact =
     GeometryCollection (map (\<lambda>g. demo_scale g xfact yfact) gs)"
| "demo_scale (SinglePart e) xfact yfact = SinglePart e"
| "demo_scale (MultiPart e) xfact yfact = MultiPart e"

definition demo_percentile :: "real list \<Rightarrow> real \<Rightarrow> real" where
  "demo_percentile xs q =
     (case xs of [] \<Rightarrow> 0 | x # rest \<Rightarrow> if q \<le> 50 then fold min rest x else fold max rest x)"

definition demo_covers :: "(32 word \<times> 32 word) list list \<Rightarrow> nat \<Rightarrow> nat \<Rightarrow> bool" where
  "demo_covers pts i j =
     list_ex (\<lambda>poly. case poly of [] \<Rightarrow> False | (x, y) # rest \<Rightarrow> unat y = i \<and> unat x = j) pts"

definition demo_wkt :: string where
  "demo_wkt = ''MULTIPOLYGON (((0 0, 1 0, 1 1, 0 0)))''"

definition demo_truth :: geometry where
  "demo_truth = MultiPolygon [Poly [(0, 0), (1, 0), (1, 1), (0, 0)] []]"

definition demo_lib :: "(demo_file, unit) lib" where
  "demo_lib = \<lparr>
     csv_reader = (\<lambda>f. case f of Inl rows \<Rightarrow> rows | Inr img \<Rightarrow> []),
     py_float = (\<lambda>s. if s = ''0.5'' then Some (1 / 2)
                      else if s = ''-0.5'' then Some (- 1 / 2) else None),
     wkt_loads = (\<lambda>s. if s = demo_wkt then Some demo_truth
                       else if s = ''MULTIPOLYGON EMPTY'' then Some (MultiPolygon [])
                       else None),
     wkt_dumps = (\<lambda>g. if g = MultiPolygon [] then ''MULTIPOLYGON EMPTY'' else demo_wkt),
     imread = (\<lambda>f. case f of Inl rows \<Rightarrow> Inl LibraryError | Inr img \<Rightarrow> Inr img),
     imshow = (\<lambda>img. None),
     affinity_scale = demo_scale,
     fillPoly_covers = demo_covers,
     percentile = demo_percentile,
     fit = (\<lambda>xs ys. if length xs = length ys then Inr () else Inl ValueError),
     predict_proba = (\<lambda>clf xs. map (\<lambda>x. if (case x of [] \<Rightarrow> 0 | r # rest \<Rightarrow> r) < 2
                                             then (1 / 10, 9 / 10) else (9 / 10, 1 / 10)) xs),
     average_precision_score = (\<lambda>ys ps. 1),
     findContours = (\<lambda>img. ([], [])),
     approxPolyDP = (\<lambda>cnt epsilon closed. cnt),
     contourArea = demo_area,
     is_valid = (\<lambda>g. True),
     buffer = (\<lambda>g distance. g),
     intersection = (\<lambda>a b. a),
     union = (\<lambda>a b. b),
     area = (\<lambda>g. case g of MultiPolygon [] \<Rightarrow> 0 | other \<Rightarrow> 1)
   \<rparr>"

text \<open>A world with the three files: the grid sizes, the training polygons and an image
  of three channels, one row and two columns, which is too small for the window that
  line 86 shows.\<close>

definition demo_world :: "demo_file world" where
  "demo_world = \<lparr>
     fs = [grid_sizes_path \<mapsto> Inl [[''ImageId'', ''Xmax'', ''Ymin''], [IM_ID, ''0.5'', ''-0.5'']],
           train_wkt_path \<mapsto> Inl [[''ImageId'', ''ClassType'', ''MultipolygonWKT''],
                                     [IM_ID, POLY_TYPE, demo_wkt]],
           image_path \<mapsto> Inr [[[1, 4]], [[2, 5]], [[3, 6]]]],
     argv = [''full-pipeline-demo-poly-pixels-ml-poly.py''],
     environ = Map.empty,
     log = []
   \<rparr>"

text \<open>The same world with an image of three channels, 2901 rows and 2001 columns, the
  smallest that has a pixel in the window.\<close>

definition full_image :: "real list list list" where
  "full_image = replicate 3 (replicate 2901 (replicate 2001 1))"

definition full_world :: "demo_file world" where
  "full_world = demo_world\<lparr>fs := (fs demo_world)(image_path \<mapsto> Inr full_image)\<rparr>"









text \<open>Worlds where an input is missing: no file at all, no row of the image in the grid
  sizes, no row of the image in the training polygons, and a polygon field that is not
  WKT.\<close>

definition no_files_world :: "demo_file world" where
  "no_files_world = demo_world\<lparr>fs := Map.empty\<rparr>"

definition no_grid_row_world :: "demo_file world" where
  "no_grid_row_world =
     demo_world\<lparr>fs := (fs demo_world)(grid_sizes_path \<mapsto> Inl [[''ImageId'', ''Xmax'', ''Ymin'']])\<rparr>"

definition no_train_row_world :: "demo_file world" where
  "no_train_row_world =
     demo_world\<lparr>fs := (fs demo_world)(train_wkt_path \<mapsto>
       Inl [[''ImageId'', ''ClassType'', ''MultipolygonWKT'']])\<rparr>"

definition bad_wkt_world :: "demo_file world" where
  "bad_wkt_world =
     demo_world\<lparr>fs := (fs demo_world)(train_wkt_path \<mapsto>
       Inl [[''ImageId'', ''ClassType'', ''MultipolygonWKT''],
            [IM_ID, POLY_TYPE, ''MULTIPOLYGON (((0 0, 1'']])\<rparr>"

section \<open>What a run may touch\<close>

text \<open>
  Two properties of a statement that are kept by sequencing: it leaves the files as they
  are and opens only paths of a given set; and the command line and the environment
  change neither its result nor what it leaves behind.
\<close>

definition reads_within :: "string set \<Rightarrow> ('f, 'a) io \<Rightarrow> bool" where
  "reads_within S m =
     (\<forall>w. fs (snd (m w)) = fs w \<and>
          (\<exists>es. log (snd (m w)) = log w @ es \<and> set (opened es) \<subseteq> S))"

definition start_independent :: "('f, 'a) io \<Rightarrow> bool" where
  "start_independent m =
     (\<forall>w a e. m (w\<lparr>argv := a, environ := e\<rparr>) =
              (fst (m w), (snd (m w))\<lparr>argv := a, environ := e\<rparr>))"

section \<open>Properties: thresholding\<close>

text \<open>
  C7. The probability mask is thresholded pointwise: the binary mask has the shape of the
  probability mask, and its entry at a pixel is True exactly when the predicted
  probability there is greater than or equal to the threshold, the constant written 0.3
  in the source (the float64 next to three tenths).
\<close>

theorem threshold_pointwise:
  "\<bar>threshold - 3 / 10\<bar> < 1 / 2 ^ 55 \<and>
   length (pred_binary_mask_of pred_mask) = length pred_mask \<and>
   (\<forall>i < length pred_mask.
      length (pred_binary_mask_of pred_mask ! i) = length (pred_mask ! i) \<and>
      (\<forall>j < length (pred_mask ! i).
         pred_binary_mask_of pred_mask ! i ! j = (pred_mask ! i ! j \<ge> threshold)))"
proof -
  have "\<bar>threshold - 3 / 10\<bar> < 1 / 2 ^ 55"
    unfolding threshold_def by simp
  then show ?thesis
    unfolding pred_binary_mask_of_def map2d_def by simp
qed

theorem threshold_pointwise_witness:
  "(0::nat) < length [[1 / 10, 1 / 2 :: real]] \<and>
   (1::nat) < length ([[1 / 10, 1 / 2 :: real]] ! 0) \<and>
   pred_binary_mask_of [[1 / 10, 1 / 2]] ! 0 ! 1 = ((1 / 2 :: real) \<ge> threshold) \<and>
   pred_binary_mask_of [[1 / 10, 1 / 2]] = [[False, True]]"
proof -
  have "pred_binary_mask_of [[1 / 10, 1 / 2]] ! 0 ! 1 =
        ([[1 / 10, 1 / 2 :: real]] ! 0 ! 1 \<ge> threshold)"
    using threshold_pointwise [of "[[1 / 10, 1 / 2]]"] by simp
  then show ?thesis
    by (simp add: pred_binary_mask_of_def map2d_def threshold_def)
qed

section \<open>Properties: the pixel-level Jaccard score\<close>

lemma concat_zip2d:
  "length a = length b \<Longrightarrow> list_all2 (\<lambda>r s. length r = length s) a b \<Longrightarrow>
   concat (zip2d f a b) = map2 f (concat a) (concat b)"
  unfolding zip2d_def
proof (induction a b rule: list_induct2)
  case Nil
  then show ?case by simp
next
  case (Cons x xs y ys)
  then show ?case by simp
qed

lemma shape2_all2:
  "shape2 a h w \<Longrightarrow> shape2 b h w \<Longrightarrow>
   length a = length b \<and> list_all2 (\<lambda>r s. length r = length s) a b"
  unfolding shape2_def
  by (auto simp: list_all2_conv_all_nth list_all_length)

lemma rows_concat_length:
  "list_all (\<lambda>row. length row = w) a \<Longrightarrow> length (concat a) = length a * w"
  by (induction a) auto

lemma shape2_concat_length: "shape2 a h w \<Longrightarrow> length (concat a) = h * w"
  unfolding shape2_def using rows_concat_length by blast

lemma shape2_map2d: "shape2 (map2d f a) h w = shape2 a h w"
  unfolding shape2_def map2d_def by (simp add: list_all_length)

lemma concat_map2d: "concat (map2d f a) = map f (concat a)"
  unfolding map2d_def by (simp add: map_concat)

lemma and_bool_u8_01:
  "t = 0 \<or> t = 1 \<Longrightarrow> unat (and_bool_u8 p t) = of_bool (p \<and> t = 1)"
  by (auto simp: and_bool_u8_def)

lemma and_bool_u8_not:
  "t = 0 \<or> t = 1 \<Longrightarrow> unat (and_bool_u8 p (NOT t)) = of_bool (p \<and> t \<noteq> 1)"
  by (auto simp: and_bool_u8_def)

lemma binary_mask_concat: "binary_mask T \<Longrightarrow> \<forall>t \<in> set (concat T). t = 0 \<or> t = 1"
  unfolding binary_mask_def by (auto simp: list_all_iff)

lemma sum_tp:
  "\<forall>t \<in> set ts. t = 0 \<or> t = 1 \<Longrightarrow>
   sum_list (map unat (map2 and_bool_u8 ps ts)) =
   length (filter (\<lambda>(p, t). p \<and> t) (zip ps (map (\<lambda>t. t = 1) ts)))"
proof (induction ps arbitrary: ts)
  case Nil
  then show ?case by simp
next
  case (Cons p ps)
  then show ?case by (cases ts) (auto simp: and_bool_u8_01)
qed

lemma sum_fp:
  "\<forall>t \<in> set ts. t = 0 \<or> t = 1 \<Longrightarrow>
   sum_list (map unat (map2 and_bool_u8 ps (map (\<lambda>t. NOT t) ts))) =
   length (filter (\<lambda>(p, t). p \<and> \<not> t) (zip ps (map (\<lambda>t. t = 1) ts)))"
proof (induction ps arbitrary: ts)
  case Nil
  then show ?case by simp
next
  case (Cons p ps)
  then show ?case by (cases ts) (auto simp: and_bool_u8_not)
qed

lemma sum_fn:
  "\<forall>t \<in> set ts. t = 0 \<or> t = 1 \<Longrightarrow>
   sum_list (map unat (map2 and_bool_u8 (map (\<lambda>p. \<not> p) ps) ts)) =
   length (filter (\<lambda>(p, t). \<not> p \<and> t) (zip ps (map (\<lambda>t. t = 1) ts)))"
proof (induction ps arbitrary: ts)
  case Nil
  then show ?case by simp
next
  case (Cons p ps)
  then show ?case by (cases ts) (auto simp: and_bool_u8_01)
qed

lemma count_split:
  "length (filter (\<lambda>(p, t). p \<and> t) zs) + length (filter (\<lambda>(p, t). p \<and> \<not> t) zs)
   + length (filter (\<lambda>(p, t). \<not> p \<and> t) zs) = length (filter (\<lambda>(p, t). p \<or> t) zs)"
  by (induction zs) auto

lemma unat_u64_small:
  "n \<le> m \<Longrightarrow> m < 2 ^ 64 \<Longrightarrow> unat (word_of_nat n :: u64) = n"
  by (simp add: unat_of_nat)

text \<open>
  C2. For a prediction mask and a binary truth mask of the same shape (with fewer than
  \<open>2^64\<close> pixels, so that the uint64 sums do not wrap), tp is the number of pixels
  marked in both masks, tp + fp + fn is the number of pixels marked in either, and when
  some pixel is marked the printed score tp / (tp + fp + fn) is the intersection over
  union.
\<close>

theorem pixel_jaccard_is_iou:
  assumes P: "shape2 P h w" and T: "shape2 T h w" and bin: "binary_mask T"
    and size: "h * w < 2 ^ 64"
  shows "unat (tp_of P T) = iou_intersection P T \<and>
         unat (tp_of P T + fp_of P T + fn_of P T) = iou_union P T \<and>
         (0 < iou_union P T \<longrightarrow>
            pixel_jaccard P T = Fin (real (iou_intersection P T) / real (iou_union P T)))"
proof -
  let ?zs = "marked_pairs P T"
  let ?tp = "length (filter (\<lambda>(p, t). p \<and> t) ?zs)"
  let ?fp = "length (filter (\<lambda>(p, t). p \<and> \<not> t) ?zs)"
  let ?fn = "length (filter (\<lambda>(p, t). \<not> p \<and> t) ?zs)"
  have b: "\<forall>t \<in> set (concat T). t = 0 \<or> t = 1" using bin by (rule binary_mask_concat)
  have len: "length ?zs \<le> h * w"
    unfolding marked_pairs_def using shape2_concat_length [OF P] by simp
  have T': "shape2 (map2d (\<lambda>t. NOT t) T) h w" using T by (simp add: shape2_map2d)
  have P': "shape2 (map2d (\<lambda>p. \<not> p) P) h w" using P by (simp add: shape2_map2d)
  have c1: "concat (zip2d and_bool_u8 P T) = map2 and_bool_u8 (concat P) (concat T)"
    using shape2_all2 [OF P T] by (intro concat_zip2d) auto
  have c2: "concat (zip2d and_bool_u8 P (map2d (\<lambda>t. NOT t) T)) =
      map2 and_bool_u8 (concat P) (map (\<lambda>t. NOT t) (concat T))"
    using shape2_all2 [OF P T'] by (simp add: concat_zip2d concat_map2d)
  have c3: "concat (zip2d and_bool_u8 (map2d (\<lambda>p. \<not> p) P) T) =
      map2 and_bool_u8 (map (\<lambda>p. \<not> p) (concat P)) (concat T)"
    using shape2_all2 [OF P' T] by (simp add: concat_zip2d concat_map2d)
  have tp: "tp_of P T = word_of_nat ?tp"
    unfolding tp_of_def np_sum_def marked_pairs_def c1 sum_tp [OF b] ..
  have fp: "fp_of P T = word_of_nat ?fp"
    unfolding fp_of_def np_sum_def marked_pairs_def c2 sum_fp [OF b] ..
  have fn: "fn_of P T = word_of_nat ?fn"
    unfolding fn_of_def np_sum_def marked_pairs_def c3 sum_fn [OF b] ..
  have union: "?tp + ?fp + ?fn = iou_union P T"
    unfolding iou_union_def by (rule count_split)
  have inter: "?tp = iou_intersection P T"
    unfolding iou_intersection_def by simp
  have le1: "?tp \<le> h * w" using length_filter_le len by (rule order_trans)
  have le2: "iou_union P T \<le> h * w"
    unfolding iou_union_def using length_filter_le len by (rule order_trans)
  have u1: "unat (tp_of P T) = ?tp"
    unfolding tp using le1 size by (rule unat_u64_small)
  have "tp_of P T + fp_of P T + fn_of P T = word_of_nat (?tp + ?fp + ?fn)"
    unfolding tp fp fn by simp
  then have u2: "unat (tp_of P T + fp_of P T + fn_of P T) = iou_union P T"
    unfolding union using unat_u64_small [OF le2 size] by simp
  have u3: "0 < iou_union P T \<longrightarrow>
      pixel_jaccard P T = Fin (real (iou_intersection P T) / real (iou_union P T))"
    unfolding pixel_jaccard_def Let_def u2 u1 inter np_true_divide_def by simp
  show ?thesis using u1 u2 u3 inter by simp
qed

theorem pixel_jaccard_is_iou_witness:
  "shape2 [[True, False], [True, True]] 2 2 \<and> shape2 [[1, 0], [0, 1 :: u8]] 2 2 \<and>
   binary_mask [[1, 0], [0, 1]] \<and> (2 * 2 :: nat) < 2 ^ 64 \<and>
   iou_intersection [[True, False], [True, True]] [[1, 0], [0, 1]] = 2 \<and>
   iou_union [[True, False], [True, True]] [[1, 0], [0, 1]] = 3 \<and>
   unat (tp_of [[True, False], [True, True]] [[1, 0], [0, 1]]) = 2 \<and>
   pixel_jaccard [[True, False], [True, True]] [[1, 0], [0, 1]] = Fin (2 / 3)"
proof -
  have P: "shape2 [[True, False], [True, True]] 2 2"
    and T: "shape2 [[1, 0], [0, 1 :: u8]] 2 2"
    and bin: "binary_mask [[1, 0], [0, 1]]"
    and size: "(2 * 2 :: nat) < 2 ^ 64"
    by (simp_all add: shape2_def binary_mask_def)
  have i: "iou_intersection [[True, False], [True, True]] [[1, 0], [0, 1]] = 2"
    and u: "iou_union [[True, False], [True, True]] [[1, 0], [0, 1]] = 3"
    by (simp_all add: iou_intersection_def iou_union_def marked_pairs_def)
  show ?thesis
    using pixel_jaccard_is_iou [OF P T bin size] P T bin i u by simp
qed

section \<open>Properties: mask_for_polygons\<close>

lemma fillPoly_shape: "shape2 (fillPoly L img pts color) h w = shape2 img h w"
  unfolding fillPoly_def shape2_def
  by (auto simp: list_all_length nth_enumerate_eq)

lemma fillPoly_binary:
  "binary_mask img \<Longrightarrow> color = 0 \<or> color = 1 \<Longrightarrow> binary_mask (fillPoly L img pts color)"
  unfolding fillPoly_def binary_mask_def
  by (auto simp: list_all_length nth_enumerate_eq)

lemma np_zeros_shape: "shape2 (np_zeros im_size) (fst im_size) (snd im_size)"
  unfolding np_zeros_def shape2_def by (simp add: list_all_length)

lemma np_zeros_binary: "binary_mask (np_zeros im_size)"
  unfolding np_zeros_def binary_mask_def by (simp add: list_all_length)

text \<open>
  C9. On an empty polygon collection mask_for_polygons returns the all-zero uint8 mask of
  shape im_size; on a multipolygon it returns a mask; and whatever mask it returns has
  shape im_size and only entries 0 and 1.
\<close>

theorem mask_for_polygons_binary:
  "(is_empty polygons \<longrightarrow>
      mask_for_polygons L im_size polygons =
        Inr (replicate (fst im_size) (replicate (snd im_size) 0))) \<and>
   (\<exists>m. mask_for_polygons L im_size (MultiPolygon ps) = Inr m) \<and>
   (\<forall>m. mask_for_polygons L im_size polygons = Inr m \<longrightarrow>
      shape2 m (fst im_size) (snd im_size) \<and> binary_mask m)"
proof -
  have a: "is_empty polygons \<longrightarrow>
      mask_for_polygons L im_size polygons =
        Inr (replicate (fst im_size) (replicate (snd im_size) 0))"
    by (simp add: mask_for_polygons_def np_zeros_def)
  have b: "\<exists>m. mask_for_polygons L im_size (MultiPolygon ps) = Inr m"
    by (simp add: mask_for_polygons_def Let_def)
  have c: "shape2 m (fst im_size) (snd im_size) \<and> binary_mask m"
    if "mask_for_polygons L im_size polygons = Inr m" for m
  proof (cases "is_empty polygons")
    case True
    with that have "m = np_zeros im_size" by (simp add: mask_for_polygons_def)
    then show ?thesis by (simp add: np_zeros_shape np_zeros_binary)
  next
    case False
    with that obtain qs where "iterate_polygons polygons = Inr qs"
      by (cases "iterate_polygons polygons") (simp_all add: mask_for_polygons_def)
    with that False have
      "m = fillPoly L (fillPoly L (np_zeros im_size) (map (\<lambda>poly. int_coords (exterior poly)) qs) 1)
             (concat (map (\<lambda>poly. map int_coords (interiors poly)) qs)) 0"
      by (simp add: mask_for_polygons_def Let_def)
    then show ?thesis
      by (simp add: fillPoly_shape fillPoly_binary np_zeros_shape np_zeros_binary)
  qed
  from a b c show ?thesis by blast
qed

theorem mask_for_polygons_binary_witness:
  "is_empty (MultiPolygon []) \<and>
   mask_for_polygons demo_lib (1, 2) (MultiPolygon []) = Inr [[0, 0]] \<and>
   mask_for_polygons demo_lib (1, 2) demo_truth = Inr [[1, 0]] \<and>
   shape2 [[1, 0 :: u8]] 1 2 \<and> binary_mask [[1, 0]]"
proof -
  have e: "is_empty (MultiPolygon [])" by simp
  have t: "mask_for_polygons demo_lib (1, 2) demo_truth = Inr [[1, 0]]" by code_simp
  from mask_for_polygons_binary [of "MultiPolygon []" demo_lib "(1, 2)" "[]"] e
  have z: "mask_for_polygons demo_lib (1, 2) (MultiPolygon []) = Inr [[0, 0]]"
    by (simp add: numeral_2_eq_2)
  from mask_for_polygons_binary [of demo_truth demo_lib "(1, 2)" "[]"] t
  have "shape2 [[1, 0 :: u8]] 1 2 \<and> binary_mask [[1, 0]]" by simp
  with e t z show ?thesis by simp
qed

section \<open>Properties: scale_percentile\<close>





text \<open>Where the percentiles are degenerate the division is 0/0 and the clipped entry is
  not a number: a constant image.\<close>

lemma scale_percentile_degenerate:
  "scale_percentile demo_lib [[[7], [7]]] = Inr [[[NaN], [NaN]]]"
  by code_simp

text \<open>An array without a pixel, such as the window of a small image, makes it raise.\<close>

lemma scale_percentile_empty: "scale_percentile L (window [[[1, 2, 3]]]) = Inl IndexError"
  by (simp add: scale_percentile_def window_def)

section \<open>Properties: mask_to_polygons\<close>
















section \<open>Properties: the script\<close>

lemma io_bindE:
  assumes "io_bind m f w = (Inr r, w')"
  obtains x w1 where "m w = (Inr x, w1)" and "f x w1 = (Inr r, w')"
  using assms unfolding io_bind_def by (auto split: prod.splits sum.splits)

lemma liftE:
  assumes "lift r w = (Inr x, w1)"
  obtains "r = Inr x" and "w1 = w"
  using assms unfolding lift_def io_raise_def io_return_def by (auto split: sum.splits)

lemma open_fileE:
  assumes "open_file path w = (Inr c, w1)"
  obtains "fs w path = Some c" and "w1 = w\<lparr>log := log w @ [Opened path]\<rparr>"
  using assms unfolding open_file_def by (auto split: option.splits)

lemma printE:
  assumes "print vs w = (Inr u, w1)"
  obtains "w1 = w\<lparr>log := log w @ [Printed vs]\<rparr>"
  using assms unfolding print_def emit_def by auto

lemma show_imageE:
  assumes "show_image L img w = (Inr u, w1)"
  obtains "imshow L img = None" and "w1 = w\<lparr>log := log w @ [Shown img]\<rparr>"
  using assms unfolding show_image_def emit_def io_raise_def by (auto split: option.splits)

lemma show_maskE:
  assumes "show_mask L f m w = (Inr u, w1)"
  obtains "w1 = w\<lparr>log := log w @ [Shown (mask_picture f m)]\<rparr>"
  using assms unfolding show_mask_def by (auto elim: show_imageE)

lemma bind_fails_first: "isl (fst (m w)) \<Longrightarrow> isl (fst (io_bind m f w))"
  unfolding io_bind_def by (auto split: prod.splits sum.splits)

lemma bind_failsI:
  "(\<And>x w1. m w = (Inr x, w1) \<Longrightarrow> isl (fst (f x w1))) \<Longrightarrow> isl (fst (io_bind m f w))"
  unfolding io_bind_def by (auto split: prod.splits sum.splits)

lemma lift_fails: "isl r \<Longrightarrow> isl (fst (lift r w))"
  by (cases r) (simp_all add: lift_def io_raise_def)

lemma load_grid_size_none:
  "\<forall>row \<in> set rows. take 1 row \<noteq> [IM_ID] \<Longrightarrow>
   load_grid_size L rows = Inr None \<or> isl (load_grid_size L rows)"
proof (induction rows)
  case Nil
  then show ?case by simp
next
  case (Cons row rows)
  then show ?case by (auto split: list.splits)
qed

lemma load_train_polygons_none:
  "\<forall>row \<in> set rows. take 1 row \<noteq> [IM_ID] \<Longrightarrow>
   load_train_polygons L rows = Inr None \<or> isl (load_train_polygons L rows)"
proof (induction rows)
  case Nil
  then show ?case by simp
next
  case (Cons row rows)
  then show ?case by (auto split: list.splits)
qed

lemma load_train_polygons_malformed:
  "\<forall>row \<in> set before. \<forall>p. row \<noteq> [IM_ID, POLY_TYPE, p] \<Longrightarrow> wkt_loads L poly = None \<Longrightarrow>
   isl (load_train_polygons L (before @ [IM_ID, POLY_TYPE, poly] # after))"
proof (induction before)
  case Nil
  then show ?case by simp
next
  case (Cons row before)
  then show ?case by (auto split: list.splits)
qed

lemma file_missing_fails:
  assumes "fs w grid_sizes_path = None \<or> fs w train_wkt_path = None \<or> fs w image_path = None"
  shows "isl (fst (script L w))"
  unfolding script_def Let_def
  apply (rule bind_failsI, erule open_fileE)
  apply (rule bind_failsI, erule liftE)
  apply (rule bind_failsI, erule open_fileE)
  apply (rule bind_failsI, erule liftE)
  apply (rule bind_fails_first)
  using assms apply (auto simp: open_file_def)
  done

lemma grid_row_missing_fails:
  assumes "fs w grid_sizes_path = Some f"
    and "\<forall>row \<in> set (csv_reader L f). take 1 row \<noteq> [IM_ID]"
  shows "isl (fst (script L w))"
  unfolding script_def Let_def
  apply (rule bind_failsI, erule open_fileE)
  apply (rule bind_failsI, erule liftE)
  apply (rule bind_failsI, erule open_fileE)
  apply (rule bind_failsI, erule liftE)
  apply (rule bind_failsI, erule open_fileE)
  apply (rule bind_failsI, erule liftE)
  apply (rule bind_fails_first, rule lift_fails)
  using assms load_grid_size_none [of "csv_reader L f" L]
  apply (auto simp: get_scalers_def split: prod.splits)
  done

lemma train_row_missing_fails:
  assumes "fs w train_wkt_path = Some f"
    and "\<forall>row \<in> set (csv_reader L f). take 1 row \<noteq> [IM_ID]"
  shows "isl (fst (script L w))"
  unfolding script_def Let_def
  apply (rule bind_failsI, erule open_fileE)
  apply (rule bind_failsI, erule liftE)
  apply (rule bind_failsI, erule open_fileE)
  apply (rule bind_failsI, erule liftE)
  apply (rule bind_failsI, erule open_fileE)
  apply (rule bind_failsI, erule liftE)
  apply (rule bind_failsI, erule liftE)
  apply (simp only: split_def)
  apply (rule bind_fails_first, rule lift_fails)
  using assms load_train_polygons_none [of "csv_reader L f" L]
  apply (auto simp: scale_polygons_def)
  done

lemma malformed_wkt_fails:
  assumes "fs w train_wkt_path = Some f"
    and "csv_reader L f = before @ [IM_ID, POLY_TYPE, poly] # after"
    and "\<forall>row \<in> set before. \<forall>p. row \<noteq> [IM_ID, POLY_TYPE, p]"
    and "wkt_loads L poly = None"
  shows "isl (fst (script L w))"
  unfolding script_def Let_def
  apply (rule bind_failsI, erule open_fileE)
  apply (rule bind_failsI, erule liftE)
  apply (rule bind_failsI, erule open_fileE)
  apply (rule bind_fails_first, rule lift_fails)
  using assms load_train_polygons_malformed [of before L poly after]
  apply auto
  done

text \<open>
  C3. The run ends with an error, which nothing catches, when one of the three input
  files is absent; when the grid-sizes file has no row whose first field is the image id;
  when the training-polygons file has no row whose first field is the image id; and when
  the polygon field of the first row of the image and the polygon type is not WKT.
\<close>

theorem input_errors_end_the_run:
  "(fs w grid_sizes_path = None \<or> fs w train_wkt_path = None \<or> fs w image_path = None \<longrightarrow>
      (\<exists>e. fst (script L w) = Inl e)) \<and>
   (\<forall>f. fs w grid_sizes_path = Some f \<and>
        (\<forall>row \<in> set (csv_reader L f). take 1 row \<noteq> [IM_ID]) \<longrightarrow>
      (\<exists>e. fst (script L w) = Inl e)) \<and>
   (\<forall>f. fs w train_wkt_path = Some f \<and>
        (\<forall>row \<in> set (csv_reader L f). take 1 row \<noteq> [IM_ID]) \<longrightarrow>
      (\<exists>e. fst (script L w) = Inl e)) \<and>
   (\<forall>f before poly after.
        fs w train_wkt_path = Some f \<and>
        csv_reader L f = before @ [IM_ID, POLY_TYPE, poly] # after \<and>
        (\<forall>row \<in> set before. \<forall>p. row \<noteq> [IM_ID, POLY_TYPE, p]) \<and>
        wkt_loads L poly = None \<longrightarrow>
      (\<exists>e. fst (script L w) = Inl e))"
proof -
  have ex: "\<exists>e. r = Inl e" if "isl r" for r :: "error + unit"
    using that by (cases r) simp_all
  have a: "fs w grid_sizes_path = None \<or> fs w train_wkt_path = None \<or> fs w image_path = None \<longrightarrow>
      (\<exists>e. fst (script L w) = Inl e)"
    using file_missing_fails [of w L] by (intro impI ex)
  have b: "\<forall>f. fs w grid_sizes_path = Some f \<and>
        (\<forall>row \<in> set (csv_reader L f). take 1 row \<noteq> [IM_ID]) \<longrightarrow>
      (\<exists>e. fst (script L w) = Inl e)"
  proof (intro allI impI ex, elim conjE)
    fix f
    assume "fs w grid_sizes_path = Some f" "\<forall>row \<in> set (csv_reader L f). take 1 row \<noteq> [IM_ID]"
    then show "isl (fst (script L w))" by (rule grid_row_missing_fails)
  qed
  have c: "\<forall>f. fs w train_wkt_path = Some f \<and>
        (\<forall>row \<in> set (csv_reader L f). take 1 row \<noteq> [IM_ID]) \<longrightarrow>
      (\<exists>e. fst (script L w) = Inl e)"
  proof (intro allI impI ex, elim conjE)
    fix f
    assume "fs w train_wkt_path = Some f" "\<forall>row \<in> set (csv_reader L f). take 1 row \<noteq> [IM_ID]"
    then show "isl (fst (script L w))" by (rule train_row_missing_fails)
  qed
  have d: "\<forall>f before poly after.
        fs w train_wkt_path = Some f \<and>
        csv_reader L f = before @ [IM_ID, POLY_TYPE, poly] # after \<and>
        (\<forall>row \<in> set before. \<forall>p. row \<noteq> [IM_ID, POLY_TYPE, p]) \<and>
        wkt_loads L poly = None \<longrightarrow>
      (\<exists>e. fst (script L w) = Inl e)"
  proof (intro allI impI ex, elim conjE)
    fix f before poly after
    assume "fs w train_wkt_path = Some f"
      "csv_reader L f = before @ [IM_ID, POLY_TYPE, poly] # after"
      "\<forall>row \<in> set before. \<forall>p. row \<noteq> [IM_ID, POLY_TYPE, p]"
      "wkt_loads L poly = None"
    then show "isl (fst (script L w))" by (rule malformed_wkt_fails)
  qed
  from a b c d show ?thesis by (intro conjI)
qed

theorem input_errors_end_the_run_witness:
  "fs no_files_world grid_sizes_path = None \<and>
   fst (script demo_lib no_files_world) = Inl FileNotFoundError \<and>
   fs no_grid_row_world grid_sizes_path = Some (Inl [[''ImageId'', ''Xmax'', ''Ymin'']]) \<and>
   take 1 [''ImageId'', ''Xmax'', ''Ymin''] \<noteq> [IM_ID] \<and>
   fst (script demo_lib no_grid_row_world) = Inl TypeError \<and>
   fs no_train_row_world train_wkt_path =
     Some (Inl [[''ImageId'', ''ClassType'', ''MultipolygonWKT'']]) \<and>
   take 1 [''ImageId'', ''ClassType'', ''MultipolygonWKT''] \<noteq> [IM_ID] \<and>
   fst (script demo_lib no_train_row_world) = Inl AttributeError \<and>
   wkt_loads demo_lib ''MULTIPOLYGON (((0 0, 1'' = None \<and>
   fst (script demo_lib bad_wkt_world) = Inl WKTReadingError \<and>
   (\<exists>e. fst (script demo_lib no_files_world) = Inl e) \<and>
   (\<exists>e. fst (script demo_lib no_grid_row_world) = Inl e) \<and>
   (\<exists>e. fst (script demo_lib no_train_row_world) = Inl e) \<and>
   (\<exists>e. fst (script demo_lib bad_wkt_world) = Inl e)"
proof -
  have a1: "fs no_files_world grid_sizes_path = None"
    by (simp add: no_files_world_def)
  have b1: "fs no_grid_row_world grid_sizes_path = Some (Inl [[''ImageId'', ''Xmax'', ''Ymin'']])"
    by (simp add: no_grid_row_world_def)
  have b2: "csv_reader demo_lib (Inl [[''ImageId'', ''Xmax'', ''Ymin'']]) =
            [[''ImageId'', ''Xmax'', ''Ymin'']]"
    by (simp add: demo_lib_def)
  have b3: "take 1 [''ImageId'', ''Xmax'', ''Ymin''] \<noteq> [IM_ID]"
    by (simp add: IM_ID_def)
  have c1: "fs no_train_row_world train_wkt_path =
            Some (Inl [[''ImageId'', ''ClassType'', ''MultipolygonWKT'']])"
    by (simp add: no_train_row_world_def)
  have c2: "csv_reader demo_lib (Inl [[''ImageId'', ''ClassType'', ''MultipolygonWKT'']]) =
            [[''ImageId'', ''ClassType'', ''MultipolygonWKT'']]"
    by (simp add: demo_lib_def)
  have c3: "take 1 [''ImageId'', ''ClassType'', ''MultipolygonWKT''] \<noteq> [IM_ID]"
    by (simp add: IM_ID_def)
  have d1: "fs bad_wkt_world train_wkt_path =
            Some (Inl [[''ImageId'', ''ClassType'', ''MultipolygonWKT''],
                       [IM_ID, POLY_TYPE, ''MULTIPOLYGON (((0 0, 1'']])"
    by (simp add: bad_wkt_world_def)
  have d2: "csv_reader demo_lib (Inl [[''ImageId'', ''ClassType'', ''MultipolygonWKT''],
                       [IM_ID, POLY_TYPE, ''MULTIPOLYGON (((0 0, 1'']]) =
            [[''ImageId'', ''ClassType'', ''MultipolygonWKT'']] @
            [IM_ID, POLY_TYPE, ''MULTIPOLYGON (((0 0, 1''] # []"
    by (simp add: demo_lib_def)
  have d3: "\<forall>row \<in> set [[''ImageId'', ''ClassType'', ''MultipolygonWKT'']].
              \<forall>p. row \<noteq> [IM_ID, POLY_TYPE, p]"
    by (simp add: IM_ID_def)
  have d4: "wkt_loads demo_lib ''MULTIPOLYGON (((0 0, 1'' = None"
    by (simp add: demo_lib_def demo_wkt_def)
  have e1: "\<exists>e. fst (script demo_lib no_files_world) = Inl e"
    using input_errors_end_the_run [of no_files_world demo_lib] a1 by blast
  have e2: "\<exists>e. fst (script demo_lib no_grid_row_world) = Inl e"
    using input_errors_end_the_run [of no_grid_row_world demo_lib] b1 b2 b3 by simp
  have e3: "\<exists>e. fst (script demo_lib no_train_row_world) = Inl e"
    using input_errors_end_the_run [of no_train_row_world demo_lib] c1 c2 c3 by simp
  have e4: "\<exists>e. fst (script demo_lib bad_wkt_world) = Inl e"
    using input_errors_end_the_run [of bad_wkt_world demo_lib] d1 d2 d3 d4 by blast
  have v1: "fst (script demo_lib no_files_world) = Inl FileNotFoundError" by code_simp
  have v2: "fst (script demo_lib no_grid_row_world) = Inl TypeError" by code_simp
  have v3: "fst (script demo_lib no_train_row_world) = Inl AttributeError" by code_simp
  have v4: "fst (script demo_lib bad_wkt_world) = Inl WKTReadingError" by code_simp
  from a1 v1 b1 b3 v2 c1 c3 v3 d4 v4 e1 e2 e3 e4 show ?thesis by blast
qed

section \<open>Properties: a run that succeeds\<close>

lemma transpose_120_shape:
  assumes "shape3 a c h w" and "0 < c" and "0 < h"
  shows "shape3 (transpose_120 a) h w c"
proof -
  from assms(1,2) obtain plane rest where a: "a = plane # rest"
    unfolding shape3_def by (cases a) auto
  with assms(1) have p: "shape2 plane h w" unfolding shape3_def by simp
  with assms(3) obtain row rows where pl: "plane = row # rows"
    unfolding shape2_def by (cases plane) auto
  with p have "length row = w" unfolding shape2_def by simp
  with a pl p assms(1) show ?thesis
    unfolding transpose_120_def shape3_def shape2_def Let_def
    by (simp add: list_all_iff)
qed

lemma shape3_shape_of: "shape3 m h w c \<Longrightarrow> 0 < h \<Longrightarrow> shape_of m = (h, w)"
  unfolding shape3_def shape2_def shape_of_def by (cases m) auto

lemma shape2_shape_of: "shape2 m h w \<Longrightarrow> 0 < h \<Longrightarrow> shape_of m = (h, w)"
  unfolding shape2_def shape_of_def by (cases m) auto

lemma window_has_pixel:
  assumes "shape3 m h w c" and "2900 < h" and "2000 < w"
  shows "concat (window m) \<noteq> []"
proof -
  from assms(1,2) have "2900 < length m" unfolding shape3_def by simp
  then obtain plane rest where d: "drop 2900 m = plane # rest"
    by (cases "drop 2900 m") auto
  then have "plane \<in> set (drop 2900 m)" by simp
  then have "plane \<in> set m" by (rule in_set_dropD)
  with assms(1,3) have "2000 < length plane"
    unfolding shape3_def shape2_def by (auto simp: list_all_iff)
  then obtain px pxs where "drop 2000 plane = px # pxs"
    by (cases "drop 2000 plane") auto
  with d show ?thesis unfolding window_def by simp
qed

lemma length_chunks3: "length (chunks3 xs) = length xs div 3"
  by (induction xs rule: chunks3.induct) simp_all

lemma concat_twice: "concat (concat xss) = concat (map concat xss)"
  by (induction xss) simp_all

lemma shape3_flat_length:
  assumes "shape3 m h w c"
  shows "length (concat (concat m)) = h * (w * c)"
proof -
  from assms have "list_all (\<lambda>r. length r = w * c) (map concat m)"
    unfolding shape3_def shape2_def
    by (auto simp: list_all_iff dest!: rows_concat_length [unfolded list_all_iff])
  from rows_concat_length [OF this] assms show ?thesis
    unfolding shape3_def by (simp add: concat_twice)
qed

lemma reshape_rows3_ok:
  assumes "shape3 m h w 3"
  shows "\<exists>xs. reshape_rows3 m = Inr xs \<and> length xs = h * w"
  using shape3_flat_length [OF assms]
  unfolding reshape_rows3_def Let_def by (simp add: length_chunks3)

lemma mask_for_multipolygon:
  "\<exists>m. mask_for_polygons L sz (MultiPolygon ps) = Inr m \<and> shape2 m (fst sz) (snd sz)"
  unfolding mask_for_polygons_def Let_def
  by (simp add: fillPoly_shape np_zeros_shape)

lemma get_scalers_ok:
  assumes "0 < h" and "0 < w" and "x_max \<noteq> 0" and "y_min \<noteq> 0"
  shows "\<exists>x_scaler y_scaler. get_scalers (h, w) (Some (x_max, y_min)) = Inr (x_scaler, y_scaler)
           \<and> x_scaler \<noteq> 0 \<and> y_scaler \<noteq> 0"
  using assms unfolding get_scalers_def py_div_def Let_def by simp

lemma io_bind_lift_Inr: "io_bind (lift (Inr x)) f w = f x w"
  by (simp add: io_bind_def lift_def io_return_def)

lemma io_bind_open_Some:
  "fs w path = Some c \<Longrightarrow> io_bind (open_file path) f w = f c (w\<lparr>log := log w @ [Opened path]\<rparr>)"
  by (simp add: io_bind_def open_file_def)

lemma io_bind_print: "io_bind (print vs) f w = f () (w\<lparr>log := log w @ [Printed vs]\<rparr>)"
  by (simp add: io_bind_def print_def emit_def)

lemma io_bind_show_image:
  "imshow L img = None \<Longrightarrow>
   io_bind (show_image L img) f w = f () (w\<lparr>log := log w @ [Shown img]\<rparr>)"
  by (simp add: io_bind_def show_image_def emit_def)

lemma io_bind_show_mask:
  "imshow L (mask_picture mul m) = None \<Longrightarrow>
   io_bind (show_mask L mul m) f w = f () (w\<lparr>log := log w @ [Shown (mask_picture mul m)]\<rparr>)"
  by (simp add: show_mask_def io_bind_show_image)

lemma fst_print: "fst (print vs w) = Inr ()"
  by (simp add: print_def emit_def)

lemma score_ok:
  assumes "x_scaler \<noteq> 0" and "y_scaler \<noteq> 0"
    and "\<And>g. \<exists>g'. wkt_loads L (wkt_dumps L g) = Some g'"
    and "\<And>g. area L (union L g truth) \<noteq> 0"
  shows "fst (score L pred_polygons (Some truth) x_scaler y_scaler w) = Inr ()"
proof -
  from assms(3) obtain final where
    "wkt_loads L (wkt_dumps L (affinity_scale L pred_polygons (1 / x_scaler) (1 / y_scaler))) =
       Some final" by blast
  with assms(1,2) assms(4) [of final] show ?thesis
    unfolding score_def Let_def py_div_def
    by (simp add: io_bind_lift_Inr io_bind_print fst_print)
qed

text \<open>With the three inputs in place, an image that covers the window, and libraries that
  accept what they are given, the run succeeds.\<close>

lemma script_succeeds:
  assumes grid: "fs w grid_sizes_path = Some grid_file"
      "load_grid_size L (csv_reader L grid_file) = Inr (Some (x_max, y_min))"
      "x_max \<noteq> 0" "y_min \<noteq> 0"
    and train: "fs w train_wkt_path = Some train_file"
      "load_train_polygons L (csv_reader L train_file) = Inr (Some truth)"
    and image: "fs w image_path = Some image_file" "imread L image_file = Inr raw"
      "shape3 raw 3 h w'" "2900 < h" "2000 < w'"
    and scaled: "\<And>xfact yfact. \<exists>ps. affinity_scale L truth xfact yfact = MultiPolygon ps"
    and shown: "\<And>img. imshow L img = None"
    and fitted: "\<And>xs ys. length xs = length ys \<Longrightarrow> \<exists>clf. fit L xs ys = Inr clf"
    and proba: "\<And>clf xs. length (predict_proba L clf xs) = length xs"
    and found: "\<And>m. \<exists>ps. mask_to_polygons L m 10 10 = Inr (MultiPolygon ps)"
    and dumped: "\<And>g. \<exists>g'. wkt_loads L (wkt_dumps L g) = Some g'"
    and overlap: "\<And>g. area L (union L g truth) \<noteq> 0"
  shows "fst (script L w) = Inr ()"
proof -
  let ?im = "transpose_120 raw"
  from image have h0: "0 < h" and w0: "0 < w'" by simp_all
  have im: "shape3 ?im h w' 3"
    using transpose_120_shape [OF image(3)] h0 by simp
  have sz: "shape_of ?im = (h, w')" using shape3_shape_of [OF im h0] .
  from get_scalers_ok [OF h0 w0 grid(3,4)] obtain x_scaler y_scaler where
    sc: "get_scalers (h, w') (Some (x_max, y_min)) = Inr (x_scaler, y_scaler)"
    and nz: "x_scaler \<noteq> 0" "y_scaler \<noteq> 0" by blast
  from scaled obtain ps where
    tps: "scale_polygons L (Some truth) x_scaler y_scaler = Inr (MultiPolygon ps)"
    unfolding scale_polygons_def by (metis option.simps(5))
  from mask_for_multipolygon [of L "(h, w')" ps] obtain train_mask where
    tm: "mask_for_polygons L (h, w') (MultiPolygon ps) = Inr train_mask"
    and tms: "shape2 train_mask h w'" by auto
  from window_has_pixel [OF im image(4,5)] obtain picture where
    sp: "scale_percentile L (window ?im) = Inr picture"
    unfolding scale_percentile_def Let_def by simp
  from reshape_rows3_ok [OF im] obtain xs where
    xs: "reshape_rows3 ?im = Inr xs" and lxs: "length xs = h * w'" by blast
  have lys: "length (concat train_mask) = h * w'" using shape2_concat_length [OF tms] .
  from fitted [of xs "concat train_mask"] lxs lys obtain clf where
    clf: "fit L xs (concat train_mask) = Inr clf" by auto
  have tsz: "shape_of train_mask = (h, w')" using shape2_shape_of [OF tms h0] .
  obtain pred_mask where
    pm: "reshape2 (map snd (predict_proba L clf xs)) (h, w') = Inr pred_mask"
    unfolding reshape2_def Let_def by (simp add: proba lxs)
  from found obtain ps2 where
    pp: "mask_to_polygons L (pred_binary_mask_of pred_mask) 10 10 = Inr (MultiPolygon ps2)"
    by blast
  from mask_for_multipolygon [of L "(h, w')" ps2] obtain pred_poly_mask where
    ppm: "mask_for_polygons L (h, w') (MultiPolygon ps2) = Inr pred_poly_mask" by auto
  show ?thesis
    unfolding script_def Let_def
    by (simp add: io_bind_open_Some io_bind_lift_Inr io_bind_print io_bind_show_image
        io_bind_show_mask grid(1,2) train image(1,2) sz sc tps tm sp xs clf tsz pm pp ppm shown
        score_ok [OF nz dumped overlap])
qed

lemma full_image_shape: "shape3 full_image 3 2901 2001"
  unfolding full_image_def shape3_def shape2_def
  by (simp add: list_all_iff)

lemma full_run_succeeds: "fst (script demo_lib full_world) = Inr ()"
proof (rule script_succeeds [where x_max = "1 / 2" and y_min = "- 1 / 2" and truth = demo_truth
      and raw = full_image and h = 2901 and w' = 2001])
  show "fs full_world grid_sizes_path =
        Some (Inl [[''ImageId'', ''Xmax'', ''Ymin''], [IM_ID, ''0.5'', ''-0.5'']])"
    by (simp add: full_world_def demo_world_def grid_sizes_path_def train_wkt_path_def
        image_path_def IM_ID_def)
  show "load_grid_size demo_lib
          (csv_reader demo_lib (Inl [[''ImageId'', ''Xmax'', ''Ymin''], [IM_ID, ''0.5'', ''-0.5'']])) =
        Inr (Some (1 / 2, - 1 / 2))"
    by (simp add: demo_lib_def IM_ID_def)
  show "fs full_world train_wkt_path =
        Some (Inl [[''ImageId'', ''ClassType'', ''MultipolygonWKT''], [IM_ID, POLY_TYPE, demo_wkt]])"
    by (simp add: full_world_def demo_world_def grid_sizes_path_def train_wkt_path_def
        image_path_def IM_ID_def)
  show "load_train_polygons demo_lib
          (csv_reader demo_lib (Inl [[''ImageId'', ''ClassType'', ''MultipolygonWKT''],
                                     [IM_ID, POLY_TYPE, demo_wkt]])) =
        Inr (Some demo_truth)"
    by (simp add: demo_lib_def IM_ID_def)
  show "fs full_world image_path = Some (Inr full_image)"
    by (simp add: full_world_def)
  show "imread demo_lib (Inr full_image) = Inr full_image"
    by (simp add: demo_lib_def)
  show "shape3 full_image 3 2901 2001" by (rule full_image_shape)
  show "\<exists>ps. affinity_scale demo_lib demo_truth xfact yfact = MultiPolygon ps" for xfact yfact
    by (simp add: demo_lib_def demo_truth_def)
  show "imshow demo_lib img = None" for img by (simp add: demo_lib_def)
  show "\<exists>clf. fit demo_lib xs ys = Inr clf" if "length xs = length ys" for xs ys
    using that by (simp add: demo_lib_def)
  show "length (predict_proba demo_lib clf xs) = length xs" for clf xs
    by (simp add: demo_lib_def)
  show "\<exists>ps. mask_to_polygons demo_lib m 10 10 = Inr (MultiPolygon ps)" for m
    by (simp add: mask_to_polygons_def demo_lib_def)
  show "\<exists>g'. wkt_loads demo_lib (wkt_dumps demo_lib g) = Some g'" for g
    by (simp add: demo_lib_def)
  show "area demo_lib (union demo_lib g demo_truth) \<noteq> 0" for g
    by (simp add: demo_lib_def demo_truth_def)
qed simp_all

lemma opened_append: "opened (xs @ ys) = opened xs @ opened ys"
  by (induction xs rule: opened.induct) auto

lemma reads_return: "reads_within S (io_return x)"
  by (simp add: reads_within_def io_return_def)

lemma reads_raise: "reads_within S (io_raise e)"
  by (simp add: reads_within_def io_raise_def)

lemma reads_lift: "reads_within S (lift r)"
  by (cases r) (simp_all add: lift_def reads_return reads_raise)

lemma reads_print: "reads_within S (print vs)"
  by (simp add: reads_within_def print_def emit_def)

lemma reads_show_image: "reads_within S (show_image L img)"
  by (cases "imshow L img") (simp_all add: reads_within_def show_image_def emit_def io_raise_def)

lemma reads_show_mask: "reads_within S (show_mask L f m)"
  by (simp add: show_mask_def reads_show_image)

lemma reads_open: "path \<in> S \<Longrightarrow> reads_within S (open_file path)"
  by (auto simp: reads_within_def open_file_def split: option.splits)

lemma reads_bind:
  assumes m: "reads_within S m" and f: "\<And>x. reads_within S (f x)"
  shows "reads_within S (io_bind m f)"
  unfolding reads_within_def
proof
  fix w
  obtain r w1 where mw: "m w = (r, w1)" by (cases "m w")
  from m mw obtain es1 where m1: "fs w1 = fs w" "log w1 = log w @ es1" "set (opened es1) \<subseteq> S"
    unfolding reads_within_def by (metis snd_conv)
  show "fs (snd (io_bind m f w)) = fs w \<and>
        (\<exists>es. log (snd (io_bind m f w)) = log w @ es \<and> set (opened es) \<subseteq> S)"
  proof (cases r)
    case (Inl e)
    with mw m1 show ?thesis by (auto simp: io_bind_def)
  next
    case (Inr x)
    from f [of x] obtain es2 where
      f1: "fs (snd (f x w1)) = fs w1" "log (snd (f x w1)) = log w1 @ es2" "set (opened es2) \<subseteq> S"
      unfolding reads_within_def by blast
    have "log (snd (f x w1)) = log w @ (es1 @ es2)" using f1 m1 by simp
    moreover have "set (opened (es1 @ es2)) \<subseteq> S" using f1 m1 by (simp add: opened_append)
    ultimately show ?thesis using Inr mw f1 m1 by (auto simp: io_bind_def)
  qed
qed

lemma reads_case_prod:
  "(\<And>a b. reads_within S (f a b)) \<Longrightarrow> reads_within S (case p of (a, b) \<Rightarrow> f a b)"
  by (cases p) simp

lemma reads_score: "reads_within S (score L pred_polygons train_polygons x_scaler y_scaler)"
  unfolding score_def Let_def
  by (intro reads_bind reads_lift reads_print)

lemma reads_script:
  "reads_within {grid_sizes_path, train_wkt_path, image_path} (script L)"
  unfolding script_def Let_def
  by (intro reads_bind reads_case_prod reads_lift reads_print reads_show_image
        reads_show_mask reads_score reads_open) simp_all

lemma indep_return: "start_independent (io_return x)"
  by (simp add: start_independent_def io_return_def)

lemma indep_raise: "start_independent (io_raise e)"
  by (simp add: start_independent_def io_raise_def)

lemma indep_lift: "start_independent (lift r)"
  by (cases r) (simp_all add: lift_def indep_return indep_raise)

lemma indep_print: "start_independent (print vs)"
  by (simp add: start_independent_def print_def emit_def)

lemma indep_show_image: "start_independent (show_image L img)"
  by (cases "imshow L img")
     (simp_all add: start_independent_def show_image_def emit_def io_raise_def)

lemma indep_show_mask: "start_independent (show_mask L f m)"
  by (simp add: show_mask_def indep_show_image)

lemma indep_open: "start_independent (open_file path)"
  by (auto simp: start_independent_def open_file_def split: option.splits)

lemma indep_bind:
  assumes m: "start_independent m" and f: "\<And>x. start_independent (f x)"
  shows "start_independent (io_bind m f)"
  unfolding start_independent_def
proof (intro allI)
  fix w a e
  obtain r w1 where mw: "m w = (r, w1)" by (cases "m w")
  with m have m': "m (w\<lparr>argv := a, environ := e\<rparr>) = (r, w1\<lparr>argv := a, environ := e\<rparr>)"
    unfolding start_independent_def by simp
  show "io_bind m f (w\<lparr>argv := a, environ := e\<rparr>) =
        (fst (io_bind m f w), (snd (io_bind m f w))\<lparr>argv := a, environ := e\<rparr>)"
  proof (cases r)
    case (Inl err)
    with mw m' show ?thesis by (simp add: io_bind_def)
  next
    case (Inr x)
    from f [of x] have "f x (w1\<lparr>argv := a, environ := e\<rparr>) =
        (fst (f x w1), (snd (f x w1))\<lparr>argv := a, environ := e\<rparr>)"
      unfolding start_independent_def by blast
    with Inr mw m' show ?thesis by (simp add: io_bind_def)
  qed
qed

lemma indep_case_prod:
  "(\<And>a b. start_independent (f a b)) \<Longrightarrow> start_independent (case p of (a, b) \<Rightarrow> f a b)"
  by (cases p) simp

lemma indep_score: "start_independent (score L pred_polygons train_polygons x_scaler y_scaler)"
  unfolding score_def Let_def
  by (intro indep_bind indep_lift indep_print)

lemma indep_script: "start_independent (script L)"
  unfolding script_def Let_def
  by (intro indep_bind indep_case_prod indep_lift indep_print indep_show_image
        indep_show_mask indep_score indep_open)

lemma script_success_opened:
  assumes "script L w = (Inr u, w')"
  shows "\<exists>es. log w' = log w @ es \<and> opened es = [grid_sizes_path, train_wkt_path, image_path]"
  using assms unfolding script_def score_def Let_def
  apply (elim io_bindE liftE open_fileE show_imageE show_maskE printE)
  apply (auto simp: split_def elim!: io_bindE liftE open_fileE show_imageE show_maskE printE)
  done

text \<open>
  C4. Whatever the libraries return and however the run ends, the files after the run
  are the files before it: the run only adds to what it has opened, printed and shown.
\<close>

theorem script_writes_nothing:
  "fs (snd (script L w)) = fs w \<and> (\<exists>es. log (snd (script L w)) = log w @ es)"
  using reads_script [of L] unfolding reads_within_def by blast

theorem script_writes_nothing_witness:
  "fst (script demo_lib demo_world) = Inl IndexError \<and>
   fs (snd (script demo_lib demo_world)) = fs demo_world \<and>
   fst (script demo_lib full_world) = Inr () \<and>
   fs (snd (script demo_lib full_world)) = fs full_world"
proof -
  have "fst (script demo_lib demo_world) = Inl IndexError" by code_simp
  with full_run_succeeds script_writes_nothing [of demo_lib demo_world]
    script_writes_nothing [of demo_lib full_world]
  show ?thesis by blast
qed

text \<open>
  C6. The three paths are the constants of the source. Every path a run opens is one of
  them, a run that succeeds has opened exactly the three, in this order, and a run
  started with another command line and another environment gives the same result and
  leaves the same record of files opened, values printed and plots shown.
\<close>

theorem inputs_are_fixed:
  "grid_sizes_path = ''../data/grid_sizes.csv'' \<and>
   train_wkt_path = ''../data/train_wkt_v4.csv'' \<and>
   image_path = ''../data/three_band/6120_2_2.tif'' \<and>
   (\<exists>es. log (snd (script L w)) = log w @ es \<and>
         set (opened es) \<subseteq> {grid_sizes_path, train_wkt_path, image_path} \<and>
         (fst (script L w) = Inr () \<longrightarrow>
            opened es = [grid_sizes_path, train_wkt_path, image_path])) \<and>
   fst (script L (w\<lparr>argv := a, environ := e\<rparr>)) = fst (script L w) \<and>
   log (snd (script L (w\<lparr>argv := a, environ := e\<rparr>))) = log (snd (script L w))"
proof -
  have paths: "grid_sizes_path = ''../data/grid_sizes.csv''"
    "train_wkt_path = ''../data/train_wkt_v4.csv''"
    "image_path = ''../data/three_band/6120_2_2.tif''"
    by (simp_all add: grid_sizes_path_def train_wkt_path_def image_path_def IM_ID_def)
  from reads_script [of L] obtain es where
    es: "log (snd (script L w)) = log w @ es"
        "set (opened es) \<subseteq> {grid_sizes_path, train_wkt_path, image_path}"
    unfolding reads_within_def by blast
  have three: "opened es = [grid_sizes_path, train_wkt_path, image_path]"
    if ok: "fst (script L w) = Inr ()"
  proof -
    from ok have "script L w = (Inr (), snd (script L w))" by (simp add: prod_eq_iff)
    from script_success_opened [OF this] obtain es' where
      "log (snd (script L w)) = log w @ es'"
      "opened es' = [grid_sizes_path, train_wkt_path, image_path]" by blast
    with es(1) show ?thesis by simp
  qed
  have ind: "script L (w\<lparr>argv := a, environ := e\<rparr>) =
             (fst (script L w), (snd (script L w))\<lparr>argv := a, environ := e\<rparr>)"
    using indep_script [of L] unfolding start_independent_def by blast
  have i1: "fst (script L (w\<lparr>argv := a, environ := e\<rparr>)) = fst (script L w)"
    and i2: "log (snd (script L (w\<lparr>argv := a, environ := e\<rparr>))) = log (snd (script L w))"
    by (simp_all add: ind)
  from es three have "\<exists>es. log (snd (script L w)) = log w @ es \<and>
         set (opened es) \<subseteq> {grid_sizes_path, train_wkt_path, image_path} \<and>
         (fst (script L w) = Inr () \<longrightarrow>
            opened es = [grid_sizes_path, train_wkt_path, image_path])"
    by blast
  with paths i1 i2 show ?thesis by (intro conjI)
qed

theorem inputs_are_fixed_witness:
  "fst (script demo_lib full_world) = Inr () \<and>
   opened (log (snd (script demo_lib full_world))) =
     [''../data/grid_sizes.csv'', ''../data/train_wkt_v4.csv'',
      ''../data/three_band/6120_2_2.tif''] \<and>
   fst (script demo_lib (full_world\<lparr>argv := [''x'', ''--flag''],
                                     environ := [''HOME'' \<mapsto> ''/tmp'']\<rparr>)) = Inr () \<and>
   log (snd (script demo_lib (full_world\<lparr>argv := [''x'', ''--flag''],
                                          environ := [''HOME'' \<mapsto> ''/tmp'']\<rparr>))) =
     log (snd (script demo_lib full_world))"
proof -
  note ok = full_run_succeeds
  have l0: "log full_world = []" by (simp add: full_world_def demo_world_def)
  from inputs_are_fixed [where L = demo_lib and w = full_world and a = "[''x'', ''--flag'']"
      and e = "[''HOME'' \<mapsto> ''/tmp'']"] ok l0
  show ?thesis by auto
qed

text \<open>
  C5. A run that succeeds has gone through the stages in this order, each computed from
  what earlier stages produced: the three inputs are loaded; the scaled polygons are
  rasterized into the training mask; the classifier is fitted on the pixels and the
  training mask; the probability mask is predicted for all pixels; it is thresholded into
  the binary mask; the binary mask is turned into polygons; and these are scored against
  the ground-truth polygons. What the run has opened, shown and printed is, in this
  order, the three files, the image, the training mask, the training message, the average
  precision, the probability mask, the binary mask, the pixel Jaccard, the mask of the
  predicted polygons, the size of the dump and the final Jaccard.
\<close>

theorem stages_in_order:
  assumes run: "script L w = (Inr (), w')"
  shows "\<exists>grid_file train_file image_file grid train_polygons raw im_rgb x_scaler y_scaler
      train_polygons_scaled train_mask picture xs pipeline pred_ys pred_mask pred_binary_mask
      pred_polygons pred_poly_mask xfact yfact dumped_prediction final_polygons truth jaccard.
      fs w grid_sizes_path = Some grid_file \<and>
      load_grid_size L (csv_reader L grid_file) = Inr grid \<and>
      fs w train_wkt_path = Some train_file \<and>
      load_train_polygons L (csv_reader L train_file) = Inr train_polygons \<and>
      fs w image_path = Some image_file \<and>
      imread L image_file = Inr raw \<and>
      im_rgb = transpose_120 raw \<and>
      get_scalers (shape_of im_rgb) grid = Inr (x_scaler, y_scaler) \<and>
      scale_polygons L train_polygons x_scaler y_scaler = Inr train_polygons_scaled \<and>
      mask_for_polygons L (shape_of im_rgb) train_polygons_scaled = Inr train_mask \<and>
      scale_percentile L (window im_rgb) = Inr picture \<and>
      reshape_rows3 im_rgb = Inr xs \<and>
      fit L xs (concat train_mask) = Inr pipeline \<and>
      pred_ys = map snd (predict_proba L pipeline xs) \<and>
      reshape2 pred_ys (shape_of train_mask) = Inr pred_mask \<and>
      pred_binary_mask = pred_binary_mask_of pred_mask \<and>
      mask_to_polygons L pred_binary_mask 10 10 = Inr pred_polygons \<and>
      mask_for_polygons L (shape_of im_rgb) pred_polygons = Inr pred_poly_mask \<and>
      py_div 1 x_scaler = Inr xfact \<and>
      py_div 1 y_scaler = Inr yfact \<and>
      dumped_prediction = wkt_dumps L (affinity_scale L pred_polygons xfact yfact) \<and>
      wkt_loads L dumped_prediction = Some final_polygons \<and>
      train_polygons = Some truth \<and>
      py_div (area L (intersection L final_polygons truth))
             (area L (union L final_polygons truth)) = Inr jaccard \<and>
      log w' = log w @
        [Opened grid_sizes_path, Opened train_wkt_path, Opened image_path,
         Shown (map2d (map times255) picture),
         Shown (mask_picture mul255_u8 (window train_mask)),
         Printed [Str ''training...''],
         Printed [Str ''average precision'',
                  Float (Fin (average_precision_score L (concat train_mask) pred_ys))],
         Shown (mask_picture mul255_float (window pred_mask)),
         Shown (mask_picture mul255_bool (window pred_binary_mask)),
         Printed [Str ''Pixel jaccard'', Float (pixel_jaccard pred_binary_mask train_mask)],
         Shown (mask_picture mul255_u8 (window pred_poly_mask)),
         Printed [Formatted ''Prediction size: {:,} bytes'' (int (length dumped_prediction))],
         Printed [Str ''Final jaccard'', Float (Fin jaccard)]]"
  using run unfolding script_def score_def Let_def
  apply (elim io_bindE liftE open_fileE show_imageE show_maskE printE)
  apply (auto simp: split_def split: option.splits
              elim!: io_bindE liftE open_fileE show_imageE show_maskE printE)
  done

theorem stages_in_order_witness:
  "script demo_lib full_world = (Inr (), snd (script demo_lib full_world)) \<and>
   length (log (snd (script demo_lib full_world))) = 13 \<and>
   take 3 (log (snd (script demo_lib full_world))) =
     [Opened grid_sizes_path, Opened train_wkt_path, Opened image_path] \<and>
   log (snd (script demo_lib full_world)) ! 5 = Printed [Str ''training...''] \<and>
   (\<exists>jaccard. log (snd (script demo_lib full_world)) ! 12 =
      Printed [Str ''Final jaccard'', Float (Fin jaccard)])"
proof -
  from full_run_succeeds
  have run: "script demo_lib full_world = (Inr (), snd (script demo_lib full_world))"
    by (simp add: prod_eq_iff)
  have l0: "log full_world = []" by (simp add: full_world_def demo_world_def)
  from stages_in_order [OF run] l0
  have "length (log (snd (script demo_lib full_world))) = 13 \<and>
    take 3 (log (snd (script demo_lib full_world))) =
      [Opened grid_sizes_path, Opened train_wkt_path, Opened image_path] \<and>
    log (snd (script demo_lib full_world)) ! 5 = Printed [Str ''training...''] \<and>
    (\<exists>jaccard. log (snd (script demo_lib full_world)) ! 12 =
       Printed [Str ''Final jaccard'', Float (Fin jaccard)])"
    by auto
  with run show ?thesis by blast
qed

end
